theory Spec2Isabelle
  imports Complex_Main "HOL-Library.Monad_Syntax"
begin

section \<open>Losses of keras\_retinanet (losses.py)\<close>

text \<open>
  The module defines two constructors, \<open>focal\<close> and \<open>smooth_l1\<close>. Each one creates (or is
  handed) a trainable scalar \<open>sigma_var\<close> and returns a pair of a nested loss function that
  closes over it (\<open>_focal\<close>, \<open>_smooth_l1\<close>) and the scalar itself.

  Numbers. The tensors hold float32 values. Here a finite tensor element is a \<open>real\<close> and
  the arithmetic on it is exact: rounding, overflow and underflow are not part of the
  losses as defined below. What exact arithmetic cannot represent is kept as a value of its
  own: a scalar result is a \<open>real option\<close>, where \<open>None\<close> stands for a non-finite float (a
  NaN or an infinity), which is what the numeric framework yields for a logarithm of a
  non-positive number, for a zero base raised to a negative power and for a negative base
  raised to a non-integer power. The one place where rounding is followed is the base of
  the focal weight, \<open>1 - classification\<close> and \<open>1 - (1 - classification)\<close>: there the
  float32 subtraction is defined, and the focal weight is given a second time with it.

  Shapes. A rank-3 tensor of shape (B, N, C) is a list (batch) of lists (anchors) of lists
  (channels). The docstrings fix the shapes the loss functions are written for: the target
  tensor carries one channel more than the prediction tensor, the anchor state. Inputs of
  any other shape are rejected by the framework's tensor operations or reshaped by its
  broadcasting rules; broadcasting is not followed here, and every input outside the
  documented shapes is reported as \<open>InvalidArgumentError\<close>.
\<close>

subsection \<open>Errors and tensors\<close>

datatype error =
    ZeroDivisionError       \<comment> \<open>Python: \<open>1.0 / sigma_squared\<close> with \<open>sigma_squared = 0\<close>\<close>
  | InvalidArgumentError    \<comment> \<open>the framework: shapes that do not fit, index out of range\<close>
  | UnknownVariable         \<comment> \<open>a handle that names no variable of the store\<close>

type_synonym tensor3 = "real list list list"
type_synonym tensor2 = "real list list"

text \<open>\<open>y_true[:, :, :-1]\<close> and \<open>y_true[:, :, -1]\<close>.\<close>

definition slice_but_last :: "tensor3 \<Rightarrow> tensor3" where
  "slice_but_last t = map (map butlast) t"

definition slice_last :: "tensor3 \<Rightarrow> tensor2" where
  "slice_last t = map (map last) t"

text \<open>
  The documented shapes: \<open>y_true\<close> is (B, N, C + 1) where \<open>y_pred\<close> is (B, N, C).
\<close>

definition conform :: "tensor3 \<Rightarrow> tensor3 \<Rightarrow> bool" where
  "conform y_true y_pred =
     list_all2 (list_all2 (\<lambda>t p. length t = Suc (length p))) y_true y_pred"

text \<open>
  \<open>tf.where(condition)\<close> on a boolean matrix: the coordinates \<open>(b, n)\<close> of the true entries,
  in row-major order.
\<close>

definition tf_where :: "bool list list \<Rightarrow> (nat \<times> nat) list" where
  "tf_where m =
     concat (map (\<lambda>b. map (Pair b) (filter (\<lambda>n. m ! b ! n) [0..<length (m ! b)]))
                 [0..<length m])"

text \<open>
  \<open>tf.gather_nd(params, indices)\<close> with two-component indices: the rows \<open>params[b, n]\<close>, in
  the order of the indices. An index outside \<open>params\<close> is an error.
\<close>

definition gather_nd :: "'a list list \<Rightarrow> (nat \<times> nat) list \<Rightarrow> 'a list option" where
  "gather_nd params indices =
     (if list_all (\<lambda>(b, n). b < length params \<and> n < length (params ! b)) indices
      then Some (map (\<lambda>(b, n). params ! b ! n) indices)
      else None)"

text \<open>
  \<open>keras.backend.sum\<close> over all elements: a single non-finite element makes the sum
  non-finite.
\<close>

fun sum_opt :: "real option list \<Rightarrow> real option" where
  "sum_opt [] = Some 0"
| "sum_opt (x # xs) = do { a \<leftarrow> x; s \<leftarrow> sum_opt xs; Some (a + s) }"

subsection \<open>Functions of the numeric framework\<close>

text \<open>
  The power \<open>x ** y\<close> on floats (IEEE 754 \<open>pow\<close>) in exact arithmetic: anything to the power
  0 is 1; a positive base gives \<open>exp (y * ln x)\<close>; a zero base gives 0 for a positive
  exponent and an infinity for a negative one; a negative base is defined for integer
  exponents only.
\<close>

definition tf_pow :: "real \<Rightarrow> real \<Rightarrow> real option" where
  "tf_pow x y =
     (if y = 0 then Some 1
      else if 0 < x then Some (x powr y)
      else if x = 0 then (if 0 < y then Some 0 else None)
      else if y = of_int \<lfloor>y\<rfloor> then Some (x powi \<lfloor>y\<rfloor>)
      else None)"

text \<open>The same on a base that may be non-finite: \<open>pow(x, 0)\<close> is 1 for every \<open>x\<close>, a NaN too.\<close>

definition tf_pow_opt :: "real option \<Rightarrow> real \<Rightarrow> real option" where
  "tf_pow_opt x y = (if y = 0 then Some 1 else do { v \<leftarrow> x; tf_pow v y })"

definition tf_log :: "real \<Rightarrow> real option" where
  "tf_log x = (if 0 < x then Some (ln x) else None)"

text \<open>\<open>tf.math.erf\<close>, the error function, by its power series at 0.\<close>

definition erf_coeff :: "nat \<Rightarrow> real" where
  "erf_coeff n = (- 1) ^ n / (fact n * real (2 * n + 1))"

definition erf :: "real \<Rightarrow> real" where
  "erf x = 2 / sqrt pi * (\<Sum>n. erf_coeff n * x ^ (2 * n + 1))"

text \<open>The absolute value of the \<open>n\<close>-th term of that series, for \<open>x \<ge> 0\<close>.\<close>

definition erf_term :: "real \<Rightarrow> nat \<Rightarrow> real" where
  "erf_term x n = x ^ (2 * n + 1) / (fact n * real (2 * n + 1))"

text \<open>
  \<open>keras.backend.epsilon()\<close> (its default) and \<open>keras.backend.binary_crossentropy\<close> on
  probabilities, as the TensorFlow 2 backend computes it: the output is clipped to
  \<open>[epsilon, 1 - epsilon]\<close>, then
  \<open>-(target * log(output + epsilon) + (1 - target) * log(1 - output + epsilon))\<close>.
\<close>

definition epsilon :: real where
  "epsilon = 1 / 10 ^ 7"

definition clip_by_value :: "real \<Rightarrow> real \<Rightarrow> real \<Rightarrow> real" where
  "clip_by_value x lo hi = max (min x hi) lo"

definition binary_crossentropy :: "real \<Rightarrow> real \<Rightarrow> real" where
  "binary_crossentropy target output =
     (let output' = clip_by_value output epsilon (1 - epsilon)
      in - (target * ln (output' + epsilon) + (1 - target) * ln (1 - output' + epsilon)))"

subsection \<open>The focal loss: \<open>_focal\<close> (lines 38 to 80)\<close>

text \<open>
  Lines 60 to 73 are element-wise on the gathered labels and predictions; \<open>sv\<close> is the
  value of \<open>sigma_var\<close> at the time of the call.
\<close>

definition alpha_factor :: "real \<Rightarrow> real \<Rightarrow> real \<Rightarrow> real" where
  "alpha_factor alpha cutoff label = (if cutoff < label then alpha else 1 - alpha)"

text \<open>
  Lines 63 to 67: the focal weight before \<open>gamma\<close> is applied, in exact arithmetic (with
  the float32 subtractions it is \<open>focal_weight0_32\<close> below).
\<close>

definition focal_weight0 :: "real \<Rightarrow> real \<Rightarrow> real \<Rightarrow> real \<Rightarrow> real option" where
  "focal_weight0 cutoff sv label classification =
     (if cutoff < label
      then map_option (\<lambda>w. w * exp (- 0.5 * sv)) (tf_pow (1 - classification) (exp (- sv)))
      else map_option (\<lambda>w. w * exp (- 0.5 * sv))
             (tf_pow (1 - (1 - classification)) (exp (- sv))))"

text \<open>Line 68: \<open>alpha_factor * focal_weight ** gamma\<close>.\<close>

definition focal_weight :: "real \<Rightarrow> real \<Rightarrow> real \<Rightarrow> real \<Rightarrow> real \<Rightarrow> real \<Rightarrow> real option" where
  "focal_weight alpha gamma cutoff sv label classification =
     map_option (\<lambda>w. alpha_factor alpha cutoff label * w)
       (tf_pow_opt (focal_weight0 cutoff sv label classification) gamma)"

text \<open>Lines 70 and 71.\<close>

definition cross_entropy :: "real \<Rightarrow> real \<Rightarrow> real \<Rightarrow> real" where
  "cross_entropy sv label classification =
     binary_crossentropy label classification * exp (- sv) + sv / 2"

text \<open>Line 73.\<close>

definition cls_loss :: "real \<Rightarrow> real \<Rightarrow> real \<Rightarrow> real \<Rightarrow> real \<Rightarrow> real \<Rightarrow> real option" where
  "cls_loss alpha gamma cutoff sv label classification =
     map_option (\<lambda>w. w * cross_entropy sv label classification)
       (focal_weight alpha gamma cutoff sv label classification)"

text \<open>Lines 76 to 78: the number of anchors of state 1, at least 1.\<close>

definition focal_normalizer :: "tensor2 \<Rightarrow> real" where
  "focal_normalizer anchor_state =
     max 1 (real (length (tf_where (map (map (\<lambda>s. s = 1)) anchor_state))))"

text \<open>The body of \<open>_focal\<close>.\<close>

definition inner_focal ::
  "real \<Rightarrow> real \<Rightarrow> real \<Rightarrow> real \<Rightarrow> tensor3 \<Rightarrow> tensor3 \<Rightarrow> error + real option" where
  "inner_focal alpha gamma cutoff sv y_true y_pred =
     (if \<not> conform y_true y_pred then Inl InvalidArgumentError
      else
        let labels = slice_but_last y_true;
            anchor_state = slice_last y_true;
            classification = y_pred;
            indices = tf_where (map (map (\<lambda>s. s \<noteq> - 1)) anchor_state)
        in case (gather_nd labels indices, gather_nd classification indices) of
             (Some labels', Some classification') \<Rightarrow>
               let loss = map2 (map2 (cls_loss alpha gamma cutoff sv)) labels' classification';
                   normalizer = focal_normalizer anchor_state
               in Inr (map_option (\<lambda>s. s / normalizer) (sum_opt (concat loss)))
           | _ \<Rightarrow> Inl InvalidArgumentError)"

subsection \<open>The base of the focal weight on float32\<close>

text \<open>
  A float32 has 24 significant bits; its exponent is at least -126, and below that the
  spacing stays \<open>2 powi (- 149)\<close>. The result of an operation is the exact result rounded to
  the nearest float32, a tie going to the even significand; a result of magnitude
  \<open>2 ^ 128\<close> or more is an infinity.
\<close>

definition round_half_even :: "real \<Rightarrow> int" where
  "round_half_even r =
     (let f = \<lfloor>r\<rfloor>; d = r - of_int f
      in if d < 1 / 2 then f
         else if 1 / 2 < d then f + 1
         else if even f then f else f + 1)"

text \<open>The spacing of the float32 numbers around \<open>x\<close>.\<close>

definition ulp32 :: "real \<Rightarrow> real" where
  "ulp32 x = 2 powi (max \<lfloor>log 2 \<bar>x\<bar>\<rfloor> (- 126) - 23)"

definition round32 :: "real \<Rightarrow> real option" where
  "round32 x =
     (if x = 0 then Some 0
      else
        let r = of_int (round_half_even (x / ulp32 x)) * ulp32 x
        in if \<bar>r\<bar> < 2 ^ 128 then Some r else None)"

text \<open>The subtraction of two float32 numbers.\<close>

definition fl32_sub :: "real \<Rightarrow> real \<Rightarrow> real option" where
  "fl32_sub a b = round32 (a - b)"

text \<open>Line 66 on a float32 prediction: \<open>1 - (1 - classification)\<close>.\<close>

definition negative_base32 :: "real \<Rightarrow> real option" where
  "negative_base32 classification =
     do { u \<leftarrow> fl32_sub 1 classification; fl32_sub 1 u }"

text \<open>
  Lines 63 to 67 with the float32 subtractions (the power, the exponentials and the
  product stay exact).
\<close>

definition focal_weight0_32 :: "real \<Rightarrow> real \<Rightarrow> real \<Rightarrow> real \<Rightarrow> real option" where
  "focal_weight0_32 cutoff sv label classification =
     (if cutoff < label
      then map_option (\<lambda>w. w * exp (- 0.5 * sv))
             (fl32_sub 1 classification \<bind> (\<lambda>b. tf_pow b (exp (- sv))))
      else map_option (\<lambda>w. w * exp (- 0.5 * sv))
             (negative_base32 classification \<bind> (\<lambda>b. tf_pow b (exp (- sv)))))"

subsection \<open>The smooth L1 loss: \<open>_smooth_l1\<close> (lines 101 to 149)\<close>

text \<open>Line 129, the branch taken below the threshold.\<close>

definition quadratic_branch :: "real \<Rightarrow> real \<Rightarrow> real \<Rightarrow> real" where
  "quadratic_branch factor sv regression_diff = factor * regression_diff ^ 2 + 0.5 * sv"

text \<open>Lines 130 to 143, the branch taken at the threshold and above it.\<close>

definition log_term :: "real \<Rightarrow> real \<Rightarrow> real option" where
  "log_term sigma_squared factor = tf_log (1 - erf (sqrt factor / sigma_squared))"

definition log_branch :: "real \<Rightarrow> real \<Rightarrow> real \<Rightarrow> real \<Rightarrow> real option" where
  "log_branch sigma_squared factor sv regression_diff =
     do {
       l \<leftarrow> log_term sigma_squared factor;
       Some (- 1 / sigma_squared * l * regression_diff
             + l
             + factor / sigma_squared ^ 2
             + 0.5 * sv)
     }"

text \<open>Lines 124 to 144 on one element of the gathered tensors.\<close>

definition regression_loss :: "real \<Rightarrow> real \<Rightarrow> real \<Rightarrow> real \<Rightarrow> real option" where
  "regression_loss sigma_squared sv regression regression_target =
     (let factor = 1 / (2 * exp sv);
          regression_diff = \<bar>regression - regression_target\<bar>
      in if regression_diff < 1 / sigma_squared
         then Some (quadratic_branch factor sv regression_diff)
         else log_branch sigma_squared factor sv regression_diff)"

text \<open>Lines 147 and 148: the number of selected anchors, at least 1.\<close>

definition smooth_l1_normalizer :: "(nat \<times> nat) list \<Rightarrow> real" where
  "smooth_l1_normalizer indices = real (max 1 (length indices))"

text \<open>
  The body of \<open>_smooth_l1\<close>. \<open>sigma_squared\<close> is the captured Python number; dividing by it
  when it is zero raises.
\<close>

definition inner_smooth_l1 ::
  "real \<Rightarrow> real \<Rightarrow> tensor3 \<Rightarrow> tensor3 \<Rightarrow> error + real option" where
  "inner_smooth_l1 sigma_squared sv y_true y_pred =
     (if \<not> conform y_true y_pred then Inl InvalidArgumentError
      else
        let regression = y_pred;
            regression_target = slice_but_last y_true;
            anchor_state = slice_last y_true;
            indices = tf_where (map (map (\<lambda>s. s = 1)) anchor_state)
        in case (gather_nd regression indices, gather_nd regression_target indices) of
             (Some regression', Some regression_target') \<Rightarrow>
               if sigma_squared = 0 then Inl ZeroDivisionError
               else
                 let loss = map2 (map2 (regression_loss sigma_squared sv))
                              regression' regression_target';
                     normalizer = smooth_l1_normalizer indices
                 in Inr (map_option (\<lambda>s. s / normalizer) (sum_opt (concat loss)))
           | _ \<Rightarrow> Inl InvalidArgumentError)"

subsection \<open>Trainable variables and the constructors\<close>

text \<open>
  A \<open>tf.Variable\<close> is a mutable object shared by the loss function and the optimizer. The
  store holds the variables; a variable is referred to by its position.
\<close>

record tf_variable =
  var_name :: string
  var_value :: real
  var_trainable :: bool

type_synonym store = "tf_variable list"
type_synonym var_ref = nat

definition tf_Variable :: "string \<Rightarrow> real \<Rightarrow> bool \<Rightarrow> store \<Rightarrow> var_ref \<times> store" where
  "tf_Variable name initial_value trainable st =
     (length st,
      st @ [\<lparr>var_name = name, var_value = initial_value, var_trainable = trainable\<rparr>])"

definition read_value :: "store \<Rightarrow> var_ref \<Rightarrow> real option" where
  "read_value st r = (if r < length st then Some (var_value (st ! r)) else None)"

type_synonym loss_function = "tensor3 \<Rightarrow> tensor3 \<Rightarrow> store \<Rightarrow> (error + real option) \<times> store"

text \<open>The closures: a call reads the captured variable and evaluates the body.\<close>

definition closure_focal :: "real \<Rightarrow> real \<Rightarrow> real \<Rightarrow> var_ref \<Rightarrow> loss_function" where
  "closure_focal alpha gamma cutoff sigma_var y_true y_pred st =
     (case read_value st sigma_var of
        None \<Rightarrow> (Inl UnknownVariable, st)
      | Some sv \<Rightarrow> (inner_focal alpha gamma cutoff sv y_true y_pred, st))"

definition closure_smooth_l1 :: "real \<Rightarrow> var_ref \<Rightarrow> loss_function" where
  "closure_smooth_l1 sigma_squared sigma_var y_true y_pred st =
     (case read_value st sigma_var of
        None \<Rightarrow> (Inl UnknownVariable, st)
      | Some sv \<Rightarrow> (inner_smooth_l1 sigma_squared sv y_true y_pred, st))"

text \<open>\<open>focal\<close> (lines 21 to 82) and \<open>smooth_l1\<close> (lines 85 to 151).\<close>

definition focal ::
  "real \<Rightarrow> real \<Rightarrow> real \<Rightarrow> var_ref option \<Rightarrow> store \<Rightarrow> (loss_function \<times> var_ref) \<times> store" where
  "focal alpha gamma cutoff sigma_var st =
     (case sigma_var of
        None \<Rightarrow>
          let (v, st') = tf_Variable ''sigma_sq_focal'' 0 True st
          in ((closure_focal alpha gamma cutoff v, v), st')
      | Some v \<Rightarrow> ((closure_focal alpha gamma cutoff v, v), st))"

definition smooth_l1 ::
  "real \<Rightarrow> var_ref option \<Rightarrow> store \<Rightarrow> (loss_function \<times> var_ref) \<times> store" where
  "smooth_l1 sigma sigma_var st =
     (let sigma_squared = sigma ^ 2
      in case sigma_var of
           None \<Rightarrow>
             let (v, st') = tf_Variable ''sigma_sq_smooth_l1'' 0 True st
             in ((closure_smooth_l1 sigma_squared v, v), st')
         | Some v \<Rightarrow> ((closure_smooth_l1 sigma_squared v, v), st))"

subsection \<open>The anchors of a batch\<close>

text \<open>
  For stating what the loss functions compute: the anchors of a batch in row-major order,
  each as the pair of its row of \<open>y_true\<close> and its row of \<open>y_pred\<close>.
\<close>

definition anchors :: "tensor3 \<Rightarrow> tensor3 \<Rightarrow> (real list \<times> real list) list" where
  "anchors y_true y_pred = concat (map2 zip y_true y_pred)"

text \<open>
  The elements the focal loss is summed over: the pairs of a label and the prediction for
  it, of the anchors that are not ignored.
\<close>

definition focal_elements :: "tensor3 \<Rightarrow> tensor3 \<Rightarrow> (real \<times> real) list" where
  "focal_elements y_true y_pred =
     concat (map (\<lambda>(t, p). zip (butlast t) p)
               (filter (\<lambda>(t, p). last t \<noteq> - 1) (anchors y_true y_pred)))"

section \<open>Selecting anchors\<close>

text \<open>
  \<open>tf.where\<close> followed by \<open>tf.gather_nd\<close> is a filter: gathering the rows of a tensor at
  the coordinates where a condition on the anchors holds keeps exactly the anchors that
  satisfy the condition, in order.
\<close>

lemma tf_where_bounds:
  "(b, n) \<in> set (tf_where m) \<Longrightarrow> b < length m \<and> n < length (m ! b) \<and> m ! b ! n"
  by (auto simp: tf_where_def)

lemma filter_nth_upt:
  "map (\<lambda>n. g (r ! n)) (filter (\<lambda>n. Q (r ! n)) [0..<length r]) = map g (filter Q r)"
proof -
  have "map g (filter Q r) = map g (filter Q (map (nth r) [0..<length r]))"
    by (simp add: map_nth)
  also have "\<dots> = map (\<lambda>n. g (r ! n)) (filter (\<lambda>n. Q (r ! n)) [0..<length r])"
    by (simp add: filter_map o_def)
  finally show ?thesis by simp
qed

lemma tf_where_map:
  "tf_where (map (map Q) A) =
     concat (map (\<lambda>b. map (Pair b) (filter (\<lambda>n. Q (A ! b ! n)) [0..<length (A ! b)]))
                 [0..<length A])"
proof -
  have row: "filter ((!) (map Q r)) [0..<length r] = filter (\<lambda>n. Q (r ! n)) [0..<length r]" for r
    by (rule filter_cong) auto
  show ?thesis
    unfolding tf_where_def
    by (rule arg_cong [where f = concat]) (simp add: row)
qed

lemma map_tf_where:
  "map (\<lambda>(b, n). g (A ! b ! n)) (tf_where (map (map Q) A)) = map g (filter Q (concat A))"
proof -
  have "map (\<lambda>(b, n). g (A ! b ! n)) (tf_where (map (map Q) A))
      = concat (map (\<lambda>b. map (\<lambda>n. g (A ! b ! n)) (filter (\<lambda>n. Q (A ! b ! n)) [0..<length (A ! b)])) [0..<length A])"
    by (simp add: tf_where_map map_concat o_def)
  also have "\<dots> = concat (map (\<lambda>b. map g (filter Q (A ! b))) [0..<length A])"
    by (simp add: filter_nth_upt)
  also have "\<dots> = concat (map (\<lambda>r. map g (filter Q r)) (map (nth A) [0..<length A]))"
    by (simp add: o_def)
  also have "\<dots> = map g (filter Q (concat A))"
    by (simp add: map_nth map_concat filter_concat o_def)
  finally show ?thesis .
qed

lemma length_tf_where:
  "length (tf_where (map (map Q) A)) = length (filter Q (concat A))"
  using map_tf_where [of "\<lambda>x. x" A Q, THEN arg_cong, of length] by simp

lemma gather_nd_tf_where:
  "gather_nd (map (map h) A) (tf_where (map (map Q) A)) = Some (map h (filter Q (concat A)))"
proof -
  let ?idx = "tf_where (map (map Q) A)"
  have bounds: "b < length A \<and> n < length (A ! b)" if "(b, n) \<in> set ?idx" for b n
    using tf_where_bounds [OF that] by auto
  have "list_all (\<lambda>(b, n). b < length (map (map h) A) \<and> n < length (map (map h) A ! b)) ?idx"
    using bounds by (auto simp: list_all_iff)
  moreover have "map (\<lambda>(b, n). map (map h) A ! b ! n) ?idx = map (\<lambda>(b, n). h (A ! b ! n)) ?idx"
    using bounds by (auto intro!: map_cong)
  ultimately show ?thesis
    by (simp add: gather_nd_def map_tf_where)
qed

lemma zip_rows:
  assumes "list_all2 (list_all2 R) xs ys"
  shows "map (map fst) (map2 zip xs ys) = xs" and "map (map snd) (map2 zip xs ys) = ys"
  using assms
  by (induction xs ys rule: list_all2_induct) (auto dest: list_all2_lengthD)

lemma conform_rows:
  assumes "conform y_true y_pred"
  shows "map (map fst) (map2 zip y_true y_pred) = y_true"
    and "map (map snd) (map2 zip y_true y_pred) = y_pred"
  using assms zip_rows unfolding conform_def by blast+

lemma zip_map_same: "zip (map g xs) (map h xs) = map (\<lambda>x. (g x, h x)) xs"
  by (induction xs) auto

lemma focal_normalizer_count:
  "focal_normalizer anchor_state
     = max 1 (real (length (filter (\<lambda>s. s = 1) (concat anchor_state))))"
  by (simp add: focal_normalizer_def length_tf_where)

lemma inner_focal_on:
  assumes "conform (map (map fst) A) (map (map snd) A)"
  shows "inner_focal alpha gamma cutoff sv (map (map fst) A) (map (map snd) A) =
    Inr (map_option (\<lambda>s. s / focal_normalizer (slice_last (map (map fst) A)))
      (sum_opt (concat (map (\<lambda>(t, p). map2 (cls_loss alpha gamma cutoff sv) (butlast t) p)
         (filter (\<lambda>(t, p). last t \<noteq> - 1) (concat A))))))"
proof -
  let ?Q = "\<lambda>a. last (fst a) \<noteq> - 1"
  have labels: "slice_but_last (map (map fst) A) = map (map (\<lambda>a. butlast (fst a))) A"
    by (simp add: slice_but_last_def o_def)
  have state: "map (map (\<lambda>s. s \<noteq> - 1)) (slice_last (map (map fst) A)) = map (map ?Q) A"
    by (simp add: slice_last_def o_def)
  have g1: "gather_nd (slice_but_last (map (map fst) A))
              (tf_where (map (map (\<lambda>s. s \<noteq> - 1)) (slice_last (map (map fst) A))))
            = Some (map (\<lambda>a. butlast (fst a)) (filter ?Q (concat A)))"
    unfolding labels state by (rule gather_nd_tf_where)
  have g2: "gather_nd (map (map snd) A)
              (tf_where (map (map (\<lambda>s. s \<noteq> - 1)) (slice_last (map (map fst) A))))
            = Some (map snd (filter ?Q (concat A)))"
    unfolding state by (rule gather_nd_tf_where)
  show ?thesis
    unfolding inner_focal_def Let_def g1 g2
    using assms by (simp add: case_prod_unfold zip_map_same o_def)
qed

lemma inner_focal_anchors:
  assumes "conform y_true y_pred"
  shows "inner_focal alpha gamma cutoff sv y_true y_pred =
    Inr (map_option (\<lambda>s. s / focal_normalizer (slice_last y_true))
      (sum_opt (concat (map (\<lambda>(t, p). map2 (cls_loss alpha gamma cutoff sv) (butlast t) p)
         (filter (\<lambda>(t, p). last t \<noteq> - 1) (anchors y_true y_pred))))))"
  using inner_focal_on [of "map2 zip y_true y_pred" alpha gamma cutoff sv] assms
  unfolding conform_rows [OF assms] anchors_def by simp

lemma inner_smooth_l1_on:
  assumes "conform (map (map fst) A) (map (map snd) A)" and "sigma_squared \<noteq> 0"
  shows "inner_smooth_l1 sigma_squared sv (map (map fst) A) (map (map snd) A) =
    Inr (map_option
      (\<lambda>s. s / real (max 1 (length (filter (\<lambda>(t, p). last t = 1) (concat A)))))
      (sum_opt (concat (map (\<lambda>(t, p). map2 (regression_loss sigma_squared sv) p (butlast t))
         (filter (\<lambda>(t, p). last t = 1) (concat A))))))"
proof -
  let ?Q = "\<lambda>a. last (fst a) = 1"
  have target: "slice_but_last (map (map fst) A) = map (map (\<lambda>a. butlast (fst a))) A"
    by (simp add: slice_but_last_def o_def)
  have state: "map (map (\<lambda>s. s = 1)) (slice_last (map (map fst) A)) = map (map ?Q) A"
    by (simp add: slice_last_def o_def)
  have g1: "gather_nd (slice_but_last (map (map fst) A))
              (tf_where (map (map (\<lambda>s. s = 1)) (slice_last (map (map fst) A))))
            = Some (map (\<lambda>a. butlast (fst a)) (filter ?Q (concat A)))"
    unfolding target state by (rule gather_nd_tf_where)
  have g2: "gather_nd (map (map snd) A)
              (tf_where (map (map (\<lambda>s. s = 1)) (slice_last (map (map fst) A))))
            = Some (map snd (filter ?Q (concat A)))"
    unfolding state by (rule gather_nd_tf_where)
  have n: "length (tf_where (map (map (\<lambda>s. s = 1)) (slice_last (map (map fst) A))))
            = length (filter ?Q (concat A))"
    unfolding state by (rule length_tf_where)
  show ?thesis
    unfolding inner_smooth_l1_def Let_def g1 g2 smooth_l1_normalizer_def n
    using assms by (simp add: case_prod_unfold zip_map_same o_def)
qed

lemma inner_smooth_l1_anchors:
  assumes "conform y_true y_pred" and "sigma_squared \<noteq> 0"
  shows "inner_smooth_l1 sigma_squared sv y_true y_pred =
    Inr (map_option
      (\<lambda>s. s / real (max 1 (length (filter (\<lambda>(t, p). last t = 1) (anchors y_true y_pred)))))
      (sum_opt (concat (map (\<lambda>(t, p). map2 (regression_loss sigma_squared sv) p (butlast t))
         (filter (\<lambda>(t, p). last t = 1) (anchors y_true y_pred))))))"
  using inner_smooth_l1_on [of "map2 zip y_true y_pred" sigma_squared sv] assms
  unfolding conform_rows [OF assms(1)] anchors_def by simp

lemma concat_slice_last:
  assumes "conform y_true y_pred"
  shows "concat (slice_last y_true) = map (\<lambda>(t, p). last t) (anchors y_true y_pred)"
proof -
  have "concat (slice_last (map (map fst) (map2 zip y_true y_pred)))
      = map (\<lambda>(t, p). last t) (concat (map2 zip y_true y_pred))"
    by (simp add: slice_last_def map_concat o_def case_prod_unfold)
  then show ?thesis
    unfolding conform_rows [OF assms] anchors_def .
qed

lemma tf_where_empty:
  assumes "\<forall>s \<in> set (concat A). \<not> Q s"
  shows "tf_where (map (map Q) A) = []"
proof -
  have "length (tf_where (map (map Q) A)) = 0"
    using assms by (simp add: length_tf_where filter_empty_conv del: set_concat)
  then show ?thesis by simp
qed

text \<open>The focal loss as a sum over the label and prediction pairs; sums of finite values.\<close>

lemma inner_focal_elements:
  assumes "conform y_true y_pred"
  shows "inner_focal alpha gamma cutoff sv y_true y_pred =
    Inr (map_option (\<lambda>s. s / focal_normalizer (slice_last y_true))
      (sum_opt (map (\<lambda>(l, c). cls_loss alpha gamma cutoff sv l c)
         (focal_elements y_true y_pred))))"
  by (simp add: inner_focal_anchors [OF assms] focal_elements_def map_concat o_def
      case_prod_unfold)

lemma sum_opt_Some: "sum_opt (map (\<lambda>x. Some (f x)) xs) = Some (sum_list (map f xs))"
  by (induction xs) simp_all

lemma sum_opt_nonneg:
  assumes "\<forall>x \<in> set xs. \<exists>v. x = Some v \<and> 0 \<le> v"
  shows "\<exists>s. sum_opt xs = Some s \<and> 0 \<le> s"
  using assms by (induction xs) auto

lemma focal_normalizer_ge_1: "1 \<le> focal_normalizer anchor_state"
  by (simp add: focal_normalizer_def)

lemma gamma_zero_weight: "focal_weight alpha 0 cutoff sv label classification
     = Some (alpha_factor alpha cutoff label)"
  by (simp add: focal_weight_def tf_pow_opt_def)

section \<open>Bounds on the element losses\<close>

text \<open>The cross-entropy of a label in [0, 1] and the powers of a non-negative base are
  finite and non-negative.\<close>

lemma clip_bounds: "epsilon \<le> clip_by_value x epsilon (1 - epsilon)"
  "clip_by_value x epsilon (1 - epsilon) \<le> 1 - epsilon"
  by (simp_all add: clip_by_value_def epsilon_def)

lemma binary_crossentropy_nonneg:
  assumes "0 \<le> t" and "t \<le> 1"
  shows "0 \<le> binary_crossentropy t c"
proof -
  let ?o = "clip_by_value c epsilon (1 - epsilon)"
  have e: "0 < epsilon" by (simp add: epsilon_def)
  have a: "0 < ?o + epsilon" "?o + epsilon \<le> 1"
    using clip_bounds [of c] e by linarith+
  have b: "0 < 1 - ?o + epsilon" "1 - ?o + epsilon \<le> 1"
    using clip_bounds [of c] e by linarith+
  have "ln (?o + epsilon) \<le> 0" and "ln (1 - ?o + epsilon) \<le> 0"
    using a b by simp_all
  then have "t * ln (?o + epsilon) \<le> 0" and "(1 - t) * ln (1 - ?o + epsilon) \<le> 0"
    using assms by (simp_all add: mult_nonneg_nonpos)
  then show ?thesis
    by (simp add: binary_crossentropy_def Let_def)
qed

lemma tf_pow_nonneg:
  assumes "0 \<le> x" and "0 \<le> y"
  shows "\<exists>w. tf_pow x y = Some w \<and> 0 \<le> w"
  using assms by (auto simp: tf_pow_def)

lemma focal_weight0_nonneg:
  assumes "0 \<le> c" and "c \<le> 1"
  shows "\<exists>w. focal_weight0 cutoff sv l c = Some w \<and> 0 \<le> w"
proof -
  have "\<exists>w. tf_pow (1 - c) (exp (- sv)) = Some w \<and> 0 \<le> w"
    and "\<exists>w. tf_pow (1 - (1 - c)) (exp (- sv)) = Some w \<and> 0 \<le> w"
    using assms by (simp_all add: tf_pow_nonneg)
  then show ?thesis
    by (auto simp: focal_weight0_def)
qed

lemma cls_loss_nonneg:
  assumes "0 \<le> alpha" "alpha \<le> 1" "0 \<le> gamma" "0 \<le> sv"
    and "0 \<le> l" "l \<le> 1" "0 \<le> c" "c \<le> 1"
  shows "\<exists>v. cls_loss alpha gamma cutoff sv l c = Some v \<and> 0 \<le> v"
proof -
  obtain w0 where w0: "focal_weight0 cutoff sv l c = Some w0" "0 \<le> w0"
    using focal_weight0_nonneg assms by blast
  have "\<exists>w. tf_pow_opt (Some w0) gamma = Some w \<and> 0 \<le> w"
    using tf_pow_nonneg [OF w0(2) assms(3)] by (cases "gamma = 0") (simp_all add: tf_pow_opt_def)
  then obtain w where w: "tf_pow_opt (Some w0) gamma = Some w" "0 \<le> w"
    by blast
  have a: "0 \<le> alpha_factor alpha cutoff l"
    using assms by (simp add: alpha_factor_def)
  have "0 \<le> binary_crossentropy l c * exp (- sv)"
    using binary_crossentropy_nonneg assms by simp
  then have ce: "0 \<le> cross_entropy sv l c"
    using assms by (simp add: cross_entropy_def)
  show ?thesis
    using w0 w a ce by (simp add: cls_loss_def focal_weight_def)
qed

lemma quadratic_formula:
  "quadratic_branch (1 / (2 * exp sv)) sv d = 0.5 * exp (- sv) * d ^ 2 + 0.5 * sv"
  by (simp add: quadratic_branch_def exp_minus divide_simps)

section \<open>The error function near 0\<close>

text \<open>
  For \<open>0 \<le> x \<le> 1\<close> the series of \<open>erf\<close> alternates with terms that decrease to 0, so its
  sum lies between consecutive partial sums.
\<close>

lemma erf_series_term: "erf_coeff n * x ^ (2 * n + 1) = (- 1) ^ n * erf_term x n"
  unfolding erf_coeff_def erf_term_def by (simp only: times_divide_eq_left times_divide_eq_right mult.commute)

lemma erf_term_nonneg: "0 \<le> x \<Longrightarrow> 0 \<le> erf_term x n"
  unfolding erf_term_def by (intro divide_nonneg_nonneg zero_le_power mult_nonneg_nonneg) simp_all

lemma erf_term_le_inverse:
  assumes "0 \<le> x" "x \<le> 1"
  shows "erf_term x n \<le> inverse (real (Suc n))"
proof -
  have "x ^ (2 * n + 1) \<le> 1"
    using assms by (rule power_le_one)
  moreover have "0 < real (Suc n)" by simp
  moreover have "real (Suc n) \<le> fact n * real (2 * n + 1)"
  proof -
    have "1 * real (Suc n) \<le> fact n * real (2 * n + 1)"
      by (rule mult_mono) simp_all
    then show ?thesis by simp
  qed
  ultimately have "x ^ (2 * n + 1) / (fact n * real (2 * n + 1)) \<le> 1 / real (Suc n)"
    by (rule frac_le [OF zero_le_one])
  then show ?thesis
    unfolding erf_term_def inverse_eq_divide .
qed

lemma erf_term_tendsto_0:
  assumes "0 \<le> x" "x \<le> 1"
  shows "erf_term x \<longlonglongrightarrow> 0"
proof (rule tendsto_sandwich [where f = "\<lambda>n. 0" and h = "\<lambda>n. inverse (real (Suc n))"])
  show "\<forall>\<^sub>F n in sequentially. 0 \<le> erf_term x n"
    using erf_term_nonneg [OF assms(1)] by (intro always_eventually allI)
  show "\<forall>\<^sub>F n in sequentially. erf_term x n \<le> inverse (real (Suc n))"
    using erf_term_le_inverse [OF assms] by (intro always_eventually allI)
  show "(\<lambda>n. 0::real) \<longlonglongrightarrow> 0" by simp
  show "(\<lambda>n. inverse (real (Suc n))) \<longlonglongrightarrow> 0"
    by (rule LIMSEQ_inverse_real_of_nat)
qed

lemma erf_term_decreasing:
  assumes "0 \<le> x" "x \<le> 1"
  shows "erf_term x (Suc n) \<le> erf_term x n"
proof -
  have e: "2 * Suc n + 1 = (2 * n + 1) + 2" by simp
  have "x ^ 2 \<le> 1"
    using assms by (rule power_le_one)
  then have "x ^ (2 * n + 1) * x ^ 2 \<le> x ^ (2 * n + 1) * 1"
    using assms(1) by (intro mult_left_mono zero_le_power)
  then have num: "x ^ (2 * Suc n + 1) \<le> x ^ (2 * n + 1)"
    unfolding e power_add by simp
  have den: "fact n * real (2 * n + 1) \<le> fact (Suc n) * real (2 * Suc n + 1)"
    by (intro mult_mono) (simp_all add: fact_mono)
  have pos: "0 < fact n * real (2 * n + 1)"
    by (intro mult_pos_pos) simp_all
  have "x ^ (2 * Suc n + 1) / (fact (Suc n) * real (2 * Suc n + 1))
      \<le> x ^ (2 * n + 1) / (fact n * real (2 * n + 1))"
    using assms(1) by (intro frac_le num den pos zero_le_power)
  then show ?thesis
    unfolding erf_term_def .
qed

lemma erf_bounds:
  assumes "0 \<le> x" "x \<le> 1"
  shows "2 / sqrt pi * (x - x ^ 3 / 3) \<le> erf x" and "erf x \<le> 2 / sqrt pi * x"
proof -
  note L = summable_Leibniz' [of "erf_term x", OF erf_term_tendsto_0 [OF assms] erf_term_nonneg [OF assms(1)]
      erf_term_decreasing [OF assms]]
  have S: "(\<Sum>n. erf_coeff n * x ^ (2 * n + 1)) = (\<Sum>n. (- 1) ^ n * erf_term x n)"
    by (simp only: erf_series_term)
  have lo: "x - x ^ 3 / 3 \<le> (\<Sum>n. (- 1) ^ n * erf_term x n)"
    using L(2) [of 1] by (simp add: erf_term_def numeral_2_eq_2 numeral_3_eq_3)
  have hi: "(\<Sum>n. (- 1) ^ n * erf_term x n) \<le> x"
    using L(4) [of 0] by (simp add: erf_term_def)
  have p: "0 \<le> 2 / sqrt pi" by simp
  show "2 / sqrt pi * (x - x ^ 3 / 3) \<le> erf x"
    unfolding erf_def S using lo p by (intro mult_left_mono)
  show "erf x \<le> 2 / sqrt pi * x"
    unfolding erf_def S using hi p by (intro mult_left_mono)
qed


lemma sqrt_pi_bounds: "1 < sqrt pi" "sqrt pi < 2"
proof -
  have "sqrt 1 < sqrt pi"
    using pi_ge_two by (intro real_sqrt_less_mono) simp
  then show "1 < sqrt pi" by simp
  have "sqrt pi < sqrt 4"
    using pi_less_4 by (intro real_sqrt_less_mono)
  moreover have "sqrt 4 = (2::real)"
    using real_sqrt_abs [of 2] by simp
  ultimately show "sqrt pi < 2" by simp
qed

lemma sqrt_half_bounds: "7 / 10 < sqrt (1 / 2)" "sqrt (1 / 2) < 1"
proof -
  show "7 / 10 < sqrt (1 / 2)"
    by (rule real_less_rsqrt) (simp add: power2_eq_square)
  have "sqrt (1 / 2) < sqrt 1"
    by (intro real_sqrt_less_mono) simp
  then show "sqrt (1 / 2) < 1" by simp
qed

lemma erf_at_default:
  shows "3 / 40 < erf (sqrt (1 / 2) / 9)" and "erf (sqrt (1 / 2) / 9) < 1 / 4"
proof -
  define x where "x = sqrt (1 / 2) / 9"
  have x: "7 / 90 < x" "x < 1 / 9"
    using sqrt_half_bounds by (simp_all add: x_def)
  then have x01: "0 \<le> x" "x \<le> 1" by simp_all
  have c: "1 < 2 / sqrt pi" "2 / sqrt pi < 2"
    using sqrt_pi_bounds by (simp_all add: field_simps)
  have "x ^ 3 \<le> (1 / 9) ^ 3"
    using x x01 by (intro power_mono) simp_all
  then have p: "3 / 40 < x - x ^ 3 / 3"
    using x by (simp add: power3_eq_cube)
  have "3 / 40 < 1 * (x - x ^ 3 / 3)"
    using p by simp
  also have "\<dots> \<le> 2 / sqrt pi * (x - x ^ 3 / 3)"
    using c p by (intro mult_right_mono) simp_all
  also have "\<dots> \<le> erf x"
    using erf_bounds(1) [OF x01] .
  finally show "3 / 40 < erf (sqrt (1 / 2) / 9)"
    unfolding x_def .
  have "erf x \<le> 2 / sqrt pi * x"
    using erf_bounds(2) [OF x01] .
  also have "\<dots> \<le> 2 * x"
    using c x01 by (intro mult_right_mono) simp_all
  also have "\<dots> < 1 / 4"
    using x by simp
  finally show "erf (sqrt (1 / 2) / 9) < 1 / 4"
    unfolding x_def .
qed

lemma log_term_at_default:
  shows "log_term 9 (1 / 2) = Some (ln (1 - erf (sqrt (1 / 2) / 9)))"
    and "ln (1 - erf (sqrt (1 / 2) / 9)) < - (3 / 40)"
proof -
  let ?e = "erf (sqrt (1 / 2) / 9)"
  have pos: "0 < 1 - ?e"
    using erf_at_default(2) by simp
  then show "log_term 9 (1 / 2) = Some (ln (1 - ?e))"
    by (simp add: log_term_def tf_log_def)
  have "ln (1 - ?e) \<le> (1 - ?e) - 1"
    using pos by (rule ln_le_minus_one)
  then show "ln (1 - ?e) < - (3 / 40)"
    using erf_at_default(1) by simp
qed

lemma log_branch_at_boundary:
  assumes "sigma_squared \<noteq> 0"
  shows "log_branch sigma_squared factor sv (1 / sigma_squared) =
    map_option (\<lambda>l. quadratic_branch factor sv (1 / sigma_squared)
                      + (1 - 1 / sigma_squared ^ 2) * l)
      (log_term sigma_squared factor)"
proof (cases "log_term sigma_squared factor")
  case None
  then show ?thesis by (simp add: log_branch_def)
next
  case (Some l)
  then show ?thesis
    using assms
    by (simp add: log_branch_def quadratic_branch_def power2_eq_square field_simps)
qed

text \<open>
  With \<open>alpha\<close>, \<open>gamma\<close> and \<open>cutoff\<close> at their defaults, a negative \<open>sigma_var\<close> makes the
  focal loss of a well classified positive anchor negative.
\<close>

lemma focal_negative_at_defaults:
  "\<exists>v. inner_focal (1 / 10) 2 (1 / 2) (- 1) [[[1, 1]]] [[[9 / 10]]] = Inr (Some v) \<and> v < 0"
proof -
  define a :: real where "a = 9 / 10 + epsilon"
  have a: "9 / 10 < a" "a < 1"
    by (simp_all add: a_def epsilon_def)
  have b: "binary_crossentropy 1 (9 / 10) = - ln a"
    by (simp add: binary_crossentropy_def clip_by_value_def epsilon_def a_def)
  have "ln (1 / a) \<le> 1 / a - 1"
    using a by (intro ln_le_minus_one) simp
  also have "\<dots> < 1 / 9"
    using a by (simp add: field_simps)
  finally have l: "- ln a < 1 / 9"
    using a by (simp add: ln_div)
  have "0 < - ln a"
    using a by simp
  then have "- ln a * exp 1 \<le> - ln a * 3"
    using exp_le by (intro mult_left_mono) simp_all
  then have ce: "cross_entropy (- 1) 1 (9 / 10) < 0"
    using l by (simp add: cross_entropy_def b)
  define w where "w = (1 / 10 :: real) powr exp 1 * exp (1 / 2)"
  have w: "0 < w" by (simp add: w_def)
  have fw: "focal_weight (1 / 10) 2 (1 / 2) (- 1) 1 (9 / 10) = Some (1 / 10 * w powr 2)"
    using w by (simp add: focal_weight_def focal_weight0_def tf_pow_opt_def tf_pow_def
        alpha_factor_def w_def)
  have "0 < 1 / 10 * w powr 2"
    using w by simp
  then have neg: "1 / 10 * w powr 2 * cross_entropy (- 1) 1 (9 / 10) < 0"
    using ce by (rule mult_pos_neg)
  have c: "conform [[[1, 1]]] [[[9 / 10]]]"
    by (simp add: conform_def)
  have n: "focal_normalizer (slice_last [[[1, 1]]]) = 1"
    by (simp add: focal_normalizer_count slice_last_def)
  have "inner_focal (1 / 10) 2 (1 / 2) (- 1) [[[1, 1]]] [[[9 / 10]]]
      = Inr (Some (1 / 10 * w powr 2 * cross_entropy (- 1) 1 (9 / 10)))"
    by (simp add: inner_focal_elements [OF c] n focal_elements_def anchors_def cls_loss_def fw)
  then show ?thesis
    using neg by blast
qed

text \<open>
  The other bounds matter too: an \<open>alpha\<close> above 1 or a label above 1 gives a negative
  loss, and a negative \<open>gamma\<close> a non-finite one.
\<close>

lemma focal_bounds_needed:
  shows "inner_focal 2 0 (1 / 2) 0 [[[0, 0]]] [[[1]]] = Inr (Some (ln (2 * epsilon)))"
    and "inner_focal (1 / 10) 0 (1 / 2) 0 [[[2, 1]]] [[[1]]] = Inr (Some (ln (2 * epsilon) / 10))"
    and "ln (2 * epsilon) < 0"
    and "inner_focal (1 / 10) (- 1) (1 / 2) 0 [[[1, 1]]] [[[1]]] = Inr None"
proof -
  have c: "conform [[[x, s]]] [[[1]]]" for x s :: real
    by (simp add: conform_def)
  have n: "focal_normalizer (slice_last [[[x, s]]]) = 1" if "s = 0 \<or> s = 1" for x s :: real
    using that by (auto simp: focal_normalizer_count slice_last_def)
  have b0: "binary_crossentropy 0 1 = - ln (2 * epsilon)"
    and b2: "binary_crossentropy 2 1 = ln (2 * epsilon)"
    by (simp_all add: binary_crossentropy_def clip_by_value_def epsilon_def)
  show "inner_focal 2 0 (1 / 2) 0 [[[0, 0]]] [[[1]]] = Inr (Some (ln (2 * epsilon)))"
    by (simp add: inner_focal_elements [OF c] n focal_elements_def anchors_def cls_loss_def
        gamma_zero_weight alpha_factor_def cross_entropy_def b0)
  show "inner_focal (1 / 10) 0 (1 / 2) 0 [[[2, 1]]] [[[1]]] = Inr (Some (ln (2 * epsilon) / 10))"
    by (simp add: inner_focal_elements [OF c] n focal_elements_def anchors_def cls_loss_def
        gamma_zero_weight alpha_factor_def cross_entropy_def b2)
  show "ln (2 * epsilon) < 0"
    by (simp add: epsilon_def)
  show "inner_focal (1 / 10) (- 1) (1 / 2) 0 [[[1, 1]]] [[[1]]] = Inr None"
    by (simp add: inner_focal_elements [OF c] n focal_elements_def anchors_def cls_loss_def
        focal_weight_def focal_weight0_def tf_pow_opt_def tf_pow_def)
qed

section \<open>Float32 subtraction from 1\<close>

text \<open>
  Rounding leaves the multiples of \<open>1 / 2 ^ 24\<close> between 0 and 1 as they are, and takes
  every number less than \<open>1 / 2 ^ 25\<close> below 1 to 1.
\<close>

lemma round_half_even_of_int: "round_half_even (of_int n) = n"
  by (simp add: round_half_even_def)

lemma round_half_even_up:
  assumes "of_int n - 1 / 2 < r" and "r \<le> of_int n"
  shows "round_half_even r = n"
proof (cases "r = of_int n")
  case True
  then show ?thesis by (simp add: round_half_even_of_int)
next
  case False
  then have "r < of_int n" using assms by simp
  then have f: "\<lfloor>r\<rfloor> = n - 1"
    using assms by (intro floor_unique) simp_all
  have "1 / 2 < r - of_int (n - 1)"
    using assms by simp
  then show ?thesis
    by (simp add: round_half_even_def f Let_def)
qed

lemma ulp32_one: "ulp32 1 = 1 / 2 ^ 23"
  by (simp add: ulp32_def power_int_minus_divide)

lemma ulp32_below_one:
  assumes "1 / 2 \<le> x" and "x < 1"
  shows "ulp32 x = 1 / 2 ^ 24"
proof -
  have "\<lfloor>log 2 x\<rfloor> = - 1"
    using assms by (subst floor_log_eq_powr_iff) (simp_all add: powr_minus_divide)
  then show ?thesis
    using assms by (simp add: ulp32_def power_int_minus_divide)
qed

lemma round32_one: "round32 1 = Some 1"
proof -
  have "1 / ulp32 1 = of_int (2 ^ 23)"
    by (simp add: ulp32_one)
  then have "round_half_even (1 / ulp32 1) = 2 ^ 23"
    by (simp only: round_half_even_of_int)
  then show ?thesis
    by (simp add: round32_def ulp32_one)
qed

lemma round32_near_one:
  assumes "0 \<le> p" and "p < 1 / 2 ^ 25"
  shows "round32 (1 - p) = Some 1"
proof (cases "p = 0")
  case True
  then show ?thesis by (simp add: round32_one)
next
  case False
  then have p: "0 < p" using assms by simp
  have x: "1 / 2 \<le> 1 - p" "1 - p < 1"
    using assms p by simp_all
  have u: "ulp32 (1 - p) = 1 / 2 ^ 24"
    using x by (rule ulp32_below_one)
  have "of_int (2 ^ 24) - 1 / 2 < (1 - p) * 2 ^ 24" and "(1 - p) * 2 ^ 24 \<le> of_int (2 ^ 24)"
    using assms by (simp_all add: field_simps)
  then have "round_half_even ((1 - p) * 2 ^ 24) = 2 ^ 24"
    by (rule round_half_even_up)
  then show ?thesis
    using x by (simp add: round32_def u)
qed

lemma negative_base32_small:
  assumes "0 \<le> p" and "p < 1 / 2 ^ 25"
  shows "negative_base32 p = Some 0"
  using round32_near_one [OF assms]
  by (simp add: negative_base32_def fl32_sub_def round32_def)


lemma round32_grid:
  assumes "0 \<le> m" and "m \<le> 2 ^ 24"
  shows "round32 (of_int m / 2 ^ 24) = Some (of_int m / 2 ^ 24)"
proof -
  consider "m = 0" | "m = 2 ^ 24" | "0 < m" "m < 2 ^ 24"
    using assms by linarith
  then show ?thesis
  proof cases
    case 1
    then show ?thesis by (simp add: round32_def)
  next
    case 2
    then show ?thesis by (simp add: round32_one)
  next
    case 3
    define x :: real where "x = of_int m / 2 ^ 24"
    define e where "e = \<lfloor>log 2 x\<rfloor>"
    have m1: "1 \<le> (of_int m :: real)" and m2: "(of_int m :: real) < 2 ^ 24"
      using 3 by (simp_all flip: of_int_less_iff of_int_le_iff add: int_one_le_iff_zero_less)
    have x: "1 / 2 ^ 24 \<le> x" "x < 1"
      using m1 m2 by (simp_all add: x_def field_simps)
    have "(0::real) < 1 / 2 ^ 24"
      by simp
    then have pos: "0 < x"
      using x(1) by (rule less_le_trans)
    have "log 2 x < 0"
      using x pos by simp
    then have e_hi: "e \<le> - 1"
      unfolding e_def by (simp add: floor_le_iff)
    have "2 powr (- 24) \<le> x"
      using x by (simp add: powr_minus_divide)
    then have "- 24 \<le> log 2 x"
      using pos by (simp add: le_log_iff)
    then have e_lo: "- 24 \<le> e"
      unfolding e_def by (simp add: le_floor_iff)
    have u: "ulp32 x = 2 powi (e - 23)"
      using e_lo pos by (simp add: ulp32_def e_def)
    define n where "n = nat (- 1 - e)"
    have n: "int n = - 1 - e"
      using e_hi by (simp add: n_def)
    have inv: "1 / ulp32 x = 2 powi (23 - e)"
      unfolding u using power_int_minus_divide [of "2::real" "e - 23"] by simp
    have xm: "x = of_int m * 2 powi (- 24)"
      by (simp add: x_def power_int_minus_divide)
    have "x / ulp32 x = x * (1 / ulp32 x)"
      by simp
    also have "\<dots> = of_int m * (2 powi (- 24) * 2 powi (23 - e))"
      unfolding inv by (subst xm) simp
    also have "2 powi (- 24) * 2 powi (23 - e) = (2::real) powi (- 24 + (23 - e))"
      by (rule power_int_add [symmetric]) simp
    also have "- 24 + (23 - e) = int n"
      using n by simp
    finally have q: "x / ulp32 x = of_int (m * 2 ^ n)"
      by simp
    have "round_half_even (x / ulp32 x) = m * 2 ^ n"
      unfolding q by (rule round_half_even_of_int)
    then have "of_int (round_half_even (x / ulp32 x)) * ulp32 x = x / ulp32 x * ulp32 x"
      unfolding q by simp
    also have "\<dots> = x"
      by (simp add: u)
    finally have r: "of_int (round_half_even (x / ulp32 x)) * ulp32 x = x" .
    have "(1::real) \<le> 2 ^ 128"
      by simp
    then have "\<bar>x\<bar> < 2 ^ 128"
      using x(2) pos by linarith
    then have "round32 x = Some x"
      using pos by (simp add: round32_def r)
    then show ?thesis
      unfolding x_def .
  qed
qed

lemma negative_base32_grid:
  assumes "0 \<le> k" and "k \<le> 2 ^ 24"
  shows "negative_base32 (of_int k / 2 ^ 24) = Some (of_int k / 2 ^ 24)"
proof -
  have a: "1 - of_int k / 2 ^ 24 = (of_int (2 ^ 24 - k) :: real) / 2 ^ 24"
    by (simp add: field_simps)
  have b: "1 - of_int (2 ^ 24 - k) / 2 ^ 24 = (of_int k :: real) / 2 ^ 24"
    by (simp add: field_simps)
  have "fl32_sub 1 (of_int k / 2 ^ 24) = Some (of_int (2 ^ 24 - k) / 2 ^ 24)"
    unfolding fl32_sub_def a using assms by (intro round32_grid) simp_all
  moreover have "fl32_sub 1 (of_int (2 ^ 24 - k) / 2 ^ 24) = Some (of_int k / 2 ^ 24)"
    unfolding fl32_sub_def b using assms by (intro round32_grid)
  ultimately show ?thesis
    by (simp add: negative_base32_def)
qed


lemma fl32_sub_grid:
  assumes "0 \<le> k" and "k \<le> 2 ^ 24"
  shows "fl32_sub 1 (of_int k / 2 ^ 24) = Some (1 - of_int k / 2 ^ 24)"
proof -
  have a: "1 - of_int k / 2 ^ 24 = (of_int (2 ^ 24 - k) :: real) / 2 ^ 24"
    by (simp add: field_simps)
  show ?thesis
    unfolding fl32_sub_def a using assms by (intro round32_grid) simp_all
qed

lemma tf_pow_prob:
  assumes "0 \<le> x"
  shows "tf_pow x (exp y) = Some (x powr exp y)"
  using assms by (simp add: tf_pow_def)

lemma spec_weight_lower:
  "1 / 400 < (1 / 2 ^ 33 :: real) powr exp (- 2) * exp (- 0.5 * 2)"
proof -
  have "1 + 2 + 2\<^sup>2 / 2 \<le> exp (2::real)"
    by (rule exp_lower_Taylor_quadratic) simp
  then have "5 \<le> exp (2::real)" by simp
  then have e2: "exp (- 2 :: real) \<le> 1 / 5"
    by (simp add: exp_minus field_simps)
  have "exp (1::real) \<le> 3" by (rule exp_le)
  then have e1: "1 / 3 \<le> exp (- 1 :: real)"
    by (simp add: exp_minus field_simps)
  have b: "(1 / 2 ^ 33 :: real) = 2 powr (- 33)"
    by (simp add: powr_minus_divide)
  have "(1 / 2 ^ 33 :: real) powr (7 / 33) \<le> (1 / 2 ^ 33) powr exp (- 2)"
    using e2 by (intro powr_mono') simp_all
  moreover have "(1 / 2 ^ 33 :: real) powr (7 / 33) = 1 / 128"
  proof -
    have "(2 powr (- 33) :: real) powr (7 / 33) = 2 powr (- 33 * (7 / 33))"
      by (rule powr_powr)
    also have "- 33 * (7 / 33) = (- 7 :: real)"
      by simp
    also have "(2::real) powr (- 7) = 1 / 128"
      by (simp add: powr_minus_divide)
    finally show ?thesis
      unfolding b .
  qed
  ultimately have p: "1 / 128 \<le> (1 / 2 ^ 33 :: real) powr exp (- 2)"
    by simp
  have "1 / 128 * (1 / 3) \<le> (1 / 2 ^ 33 :: real) powr exp (- 2) * exp (- 1)"
    using p e1 by (intro mult_mono) simp_all
  moreover have "- 0.5 * 2 = (- 1 :: real)"
    by simp
  ultimately show ?thesis
    by simp
qed

text \<open>
  Rounding moves a number by at most half the spacing; between \<open>1 / 2\<close> and 1 the float32
  numbers are the multiples of \<open>1 / 2 ^ 24\<close>.
\<close>

lemma round_half_even_cases:
  "round_half_even r = \<lfloor>r\<rfloor> \<or> round_half_even r = \<lfloor>r\<rfloor> + 1"
  by (simp add: round_half_even_def Let_def)

lemma round_half_even_error: "\<bar>of_int (round_half_even r) - r\<bar> \<le> 1 / 2"
proof -
  have "of_int \<lfloor>r\<rfloor> \<le> r" and "r < of_int \<lfloor>r\<rfloor> + 1"
    by linarith+
  then show ?thesis
    by (auto simp: round_half_even_def Let_def)
qed

lemma round_half_even_ge:
  assumes "of_int n \<le> r"
  shows "n \<le> round_half_even r"
proof -
  have "n \<le> \<lfloor>r\<rfloor>"
    using assms by (simp add: le_floor_iff)
  then show ?thesis
    using round_half_even_cases [of r] by linarith
qed

lemma round_half_even_le:
  assumes "r \<le> of_int n"
  shows "round_half_even r \<le> n"
proof (cases "r = of_int n")
  case True
  then show ?thesis by (simp add: round_half_even_of_int)
next
  case False
  then have "r < of_int n" using assms by simp
  then have "\<lfloor>r\<rfloor> < n"
    by (simp add: floor_less_iff)
  then show ?thesis
    using round_half_even_cases [of r] by linarith
qed

lemma round32_upper_half:
  assumes "1 / 2 \<le> x" and "x < 1"
  shows "round32 x = Some (of_int (round_half_even (x * 2 ^ 24)) / 2 ^ 24)"
    and "2 ^ 23 \<le> round_half_even (x * 2 ^ 24)"
    and "round_half_even (x * 2 ^ 24) \<le> 2 ^ 24"
proof -
  let ?k = "round_half_even (x * 2 ^ 24)"
  have "of_int (2 ^ 23) \<le> x * 2 ^ 24"
    using assms by simp
  then show lo: "2 ^ 23 \<le> ?k"
    by (rule round_half_even_ge)
  have "x * 2 ^ 24 \<le> of_int (2 ^ 24)"
    using assms by simp
  then show hi: "?k \<le> 2 ^ 24"
    by (rule round_half_even_le)
  have "(of_int ?k :: real) \<le> of_int (2 ^ 24)"
    using hi by (simp only: of_int_le_iff)
  moreover have "(0 :: real) \<le> of_int ?k"
    using lo by simp
  ultimately have "\<bar>of_int ?k / 2 ^ 24 :: real\<bar> < 2 ^ 128"
    by (simp add: field_simps)
  then show "round32 x = Some (of_int ?k / 2 ^ 24)"
    using assms by (simp add: round32_def ulp32_below_one)
qed

lemma negative_base32_lower_half:
  assumes "0 \<le> p" and "p \<le> 1 / 2"
  shows "\<exists>b. negative_base32 p = Some b \<and> \<bar>b - p\<bar> \<le> 1 / 2 ^ 25"
proof (cases "p = 0")
  case True
  have "negative_base32 0 = Some 0"
    by (rule negative_base32_small) simp_all
  then show ?thesis
    using True by simp
next
  case False
  define k where "k = round_half_even ((1 - p) * 2 ^ 24)"
  have x: "1 / 2 \<le> 1 - p" "1 - p < 1"
    using assms False by simp_all
  have u: "fl32_sub 1 p = Some (of_int k / 2 ^ 24)"
    unfolding fl32_sub_def k_def using x by (rule round32_upper_half(1))
  have k: "0 \<le> k" "k \<le> 2 ^ 24"
    using round32_upper_half(2,3) [OF x] unfolding k_def by simp_all
  have b: "fl32_sub 1 (of_int k / 2 ^ 24) = Some (1 - of_int k / 2 ^ 24)"
    using k by (rule fl32_sub_grid)
  have n: "negative_base32 p = Some (1 - of_int k / 2 ^ 24)"
    using b by (simp add: negative_base32_def u)
  have e: "\<bar>of_int k - (1 - p) * 2 ^ 24\<bar> \<le> 1 / 2"
    unfolding k_def by (rule round_half_even_error)
  have "(1 - of_int k / 2 ^ 24) - p = - ((of_int k - (1 - p) * 2 ^ 24) / 2 ^ 24)"
    by (simp add: field_simps)
  moreover have "\<bar>(2 ^ 24 :: real)\<bar> = 2 ^ 24"
    by simp
  ultimately have "\<bar>(1 - of_int k / 2 ^ 24) - p\<bar> = \<bar>of_int k - (1 - p) * 2 ^ 24\<bar> / 2 ^ 24"
    by (simp only: abs_minus_cancel abs_divide)
  also have "\<dots> \<le> (1 / 2) / 2 ^ 24"
    using e by (rule divide_right_mono) simp
  finally have "\<bar>(1 - of_int k / 2 ^ 24) - p\<bar> \<le> 1 / 2 ^ 25"
    by simp
  then show ?thesis
    using n by blast
qed

lemma float32_upper_half_on_grid:
  assumes "1 / 2 \<le> x" and "x \<le> 1" and "round32 x = Some x"
  shows "\<exists>k. 0 \<le> k \<and> k \<le> 2 ^ 24 \<and> x = of_int k / 2 ^ 24"
proof (cases "x = 1")
  case True
  then have "0 \<le> (2 ^ 24 :: int) \<and> (2 ^ 24 :: int) \<le> 2 ^ 24 \<and> x = of_int (2 ^ 24) / 2 ^ 24"
    by simp
  then show ?thesis by blast
next
  case False
  then have x: "1 / 2 \<le> x" "x < 1"
    using assms by simp_all
  have "x = of_int (round_half_even (x * 2 ^ 24)) / 2 ^ 24"
    using round32_upper_half(1) [OF x] assms(3) by simp
  moreover have "0 \<le> round_half_even (x * 2 ^ 24)"
    using round32_upper_half(2) [OF x] by simp
  ultimately show ?thesis
    using round32_upper_half(3) [OF x] by blast
qed

lemma negative_base32_float32_upper_half:
  assumes "1 / 2 \<le> x" and "x \<le> 1" and "round32 x = Some x"
  shows "negative_base32 x = Some x"
proof -
  obtain k where "0 \<le> k" "k \<le> 2 ^ 24" "x = of_int k / 2 ^ 24"
    using float32_upper_half_on_grid [OF assms] by blast
  then show ?thesis
    by (simp only: negative_base32_grid)
qed

text \<open>
  On the multiples of \<open>1 / 2 ^ 24\<close> in [0, 1] the focal weight with float32 subtractions
  is the focal weight of exact arithmetic.
\<close>

lemma focal_weight0_32_on_grid:
  assumes "0 \<le> k" and "k \<le> 2 ^ 24"
  shows "focal_weight0_32 cutoff sv label (of_int k / 2 ^ 24)
       = focal_weight0 cutoff sv label (of_int k / 2 ^ 24)"
  unfolding focal_weight0_32_def focal_weight0_def negative_base32_grid [OF assms]
    fl32_sub_grid [OF assms]
  by simp

text \<open>
  The branch of lines 130 to 143 holds the value of the quadratic branch at the boundary,
  \<open>factor / sigma_squared ** 2 + 0.5 * sigma_var\<close>, and the two terms
  \<open>- 1 / sigma_squared * l * regression_diff + l\<close>, where \<open>l\<close> is the logarithm. With the
  slope \<open>- sigma_squared * l\<close> these two terms cancel at the boundary and the branches meet
  there, for every \<open>sigma\<close> and \<open>sigma_var\<close>.
\<close>

lemma linear_term_slope:
  assumes "sigma_squared \<noteq> 0"
  shows "- sigma_squared * l * (1 / sigma_squared) + l + factor / sigma_squared ^ 2 + 0.5 * sv
       = quadratic_branch factor sv (1 / sigma_squared)"
  using assms by (simp add: quadratic_branch_def power2_eq_square field_simps)

section \<open>Properties of the losses\<close>

text \<open>
  Claim C1. On a batch without a positive anchor (for the focal loss: every anchor state is
  -1; for the smooth L1 loss: no anchor state is 1) the normalizer is 1 and the loss is the
  finite number 0: the selected tensors are empty, their sum is 0, and 0 is divided by 1.
  The smooth L1 loss is taken with the \<open>sigma_squared \<noteq> 0\<close> that its threshold
  \<open>1 / sigma_squared\<close> presupposes.
\<close>

theorem no_positive_anchor_loss_zero:
  "(conform y_true y_pred \<and> list_all (\<lambda>s. s = - 1) (concat (slice_last y_true))
      \<longrightarrow> focal_normalizer (slice_last y_true) = 1
        \<and> inner_focal alpha gamma cutoff sv y_true y_pred = Inr (Some 0))
   \<and> (conform y_true y_pred \<and> sigma_squared \<noteq> 0
        \<and> list_all (\<lambda>s. s \<noteq> 1) (concat (slice_last y_true))
      \<longrightarrow> smooth_l1_normalizer (tf_where (map (map (\<lambda>s. s = 1)) (slice_last y_true))) = 1
        \<and> inner_smooth_l1 sigma_squared sv y_true y_pred = Inr (Some 0))"
proof (intro conjI impI; elim conjE)
  assume c: "conform y_true y_pred"
    and "list_all (\<lambda>s. s = - 1) (concat (slice_last y_true))"
  then have all: "\<forall>s \<in> set (concat (slice_last y_true)). s = - 1"
    by (simp add: list_all_iff del: set_concat)
  have "\<forall>s \<in> set (concat (slice_last y_true)). \<not> s = 1"
    using all by fastforce
  then have pos: "tf_where (map (map (\<lambda>s. s = 1)) (slice_last y_true)) = []"
    by (rule tf_where_empty)
  show n: "focal_normalizer (slice_last y_true) = 1"
    by (simp add: focal_normalizer_def pos)
  have "\<forall>a \<in> set (anchors y_true y_pred). \<not> (case a of (t, p) \<Rightarrow> last t \<noteq> - 1)"
    using all unfolding concat_slice_last [OF c] by auto
  then have "filter (\<lambda>(t, p). last t \<noteq> - 1) (anchors y_true y_pred) = []"
    by (simp add: filter_empty_conv)
  then show "inner_focal alpha gamma cutoff sv y_true y_pred = Inr (Some 0)"
    by (simp add: inner_focal_anchors [OF c] n)
next
  assume c: "conform y_true y_pred" and s: "sigma_squared \<noteq> 0"
    and "list_all (\<lambda>s. s \<noteq> 1) (concat (slice_last y_true))"
  then have all: "\<forall>s \<in> set (concat (slice_last y_true)). s \<noteq> 1"
    by (simp add: list_all_iff del: set_concat)
  have pos: "tf_where (map (map (\<lambda>s. s = 1)) (slice_last y_true)) = []"
    using all by (rule tf_where_empty)
  show "smooth_l1_normalizer (tf_where (map (map (\<lambda>s. s = 1)) (slice_last y_true))) = 1"
    by (simp add: smooth_l1_normalizer_def pos)
  have "\<forall>a \<in> set (anchors y_true y_pred). \<not> (case a of (t, p) \<Rightarrow> last t = 1)"
    using all unfolding concat_slice_last [OF c] by auto
  then have "filter (\<lambda>(t, p). last t = 1) (anchors y_true y_pred) = []"
    by (simp add: filter_empty_conv)
  then show "inner_smooth_l1 sigma_squared sv y_true y_pred = Inr (Some 0)"
    by (simp add: inner_smooth_l1_anchors [OF c s])
qed

theorem no_positive_anchor_loss_zero_witness:
  "conform [[[0, - 1], [1, - 1]]] [[[1 / 2], [1 / 4]]]
   \<and> list_all (\<lambda>s. s = - 1) (concat (slice_last [[[0, - 1], [1, - 1]]]))
   \<and> focal_normalizer (slice_last [[[0, - 1], [1, - 1]]]) = 1
   \<and> inner_focal (1 / 10) 2 (1 / 2) 0 [[[0, - 1], [1, - 1]]] [[[1 / 2], [1 / 4]]] = Inr (Some 0)
   \<and> conform [[[1, 2, 3, 4, 0], [0, 0, 0, 0, - 1]]] [[[1, 1, 1, 1], [0, 0, 0, 0]]]
   \<and> (3::real) ^ 2 \<noteq> 0
   \<and> list_all (\<lambda>s. s \<noteq> 1) (concat (slice_last [[[1, 2, 3, 4, 0], [0, 0, 0, 0, - 1]]]))
   \<and> smooth_l1_normalizer
        (tf_where (map (map (\<lambda>s. s = 1)) (slice_last [[[1, 2, 3, 4, 0], [0, 0, 0, 0, - 1]]]))) = 1
   \<and> inner_smooth_l1 (3 ^ 2) 0 [[[1, 2, 3, 4, 0], [0, 0, 0, 0, - 1]]] [[[1, 1, 1, 1], [0, 0, 0, 0]]]
       = Inr (Some 0)"
proof -
  have c1: "conform [[[0, - 1], [1, - 1]]] [[[1 / 2], [1 / 4]]]"
    by (simp add: conform_def)
  have a1: "list_all (\<lambda>s. s = - 1) (concat (slice_last [[[0, - 1], [1, - 1 :: real]]]))"
    by (simp add: slice_last_def)
  have c2: "conform [[[1, 2, 3, 4, 0], [0, 0, 0, 0, - 1]]] [[[1, 1, 1, 1], [0, 0, 0, 0]]]"
    by (simp add: conform_def)
  have a2: "list_all (\<lambda>s. s \<noteq> 1) (concat (slice_last [[[1, 2, 3, 4, 0], [0, 0, 0, 0, - 1 :: real]]]))"
    by (simp add: slice_last_def)
  have s: "(3::real) ^ 2 \<noteq> 0" by simp
  from no_positive_anchor_loss_zero
         [of "[[[0, - 1], [1, - 1]]]" "[[[1 / 2], [1 / 4]]]" "1 / 10" 2 "1 / 2" 0 "3 ^ 2"]
       no_positive_anchor_loss_zero
         [of "[[[1, 2, 3, 4, 0], [0, 0, 0, 0, - 1]]]" "[[[1, 1, 1, 1], [0, 0, 0, 0]]]"
             "1 / 10" 2 "1 / 2" 0 "3 ^ 2"]
       c1 a1 c2 a2 s
  show ?thesis by blast
qed

text \<open>
  Claim C2. Below the threshold \<open>1 / sigma\<^sup>2\<close> the element loss is
  \<open>0.5 * exp (- sigma_var) * diff\<^sup>2 + 0.5 * sigma_var\<close>, and \<open>0.5 * sigma_var\<close> where the
  prediction equals the target. The loss returned for a single positive anchor whose
  prediction equals its target is not \<open>0.5 * sigma_var\<close>: it is the sum over the channels
  of the anchor, here four, divided by the normalizer 1.
\<close>

theorem smooth_l1_equal_prediction_counterexample:
  "conform [[[0, 0, 0, 0, 1]]] [[[0, 0, 0, 0]]]
   \<and> inner_smooth_l1 (3 ^ 2) 1 [[[0, 0, 0, 0, 1]]] [[[0, 0, 0, 0]]] = Inr (Some 2)
   \<and> (2::real) \<noteq> 0.5 * 1"
proof -
  have r: "regression_loss 9 1 x x = Some (1 / 2)" for x
    by (simp add: regression_loss_def quadratic_branch_def)
  have c: "conform [[[0, 0, 0, 0, 1]]] [[[0, 0, 0, 0]]]"
    by (simp add: conform_def)
  show ?thesis
    by (simp add: c inner_smooth_l1_anchors anchors_def r)
qed

text \<open>
  Claim C2, amended. The element loss is as stated; for a batch whose only positive anchor
  has a prediction equal to its target, the returned loss is \<open>0.5 * sigma_var\<close> times the
  number of channels of the prediction (\<open>2 * sigma_var\<close> for four channels).
\<close>

theorem smooth_l1_quadratic:
  "(sigma \<noteq> 0 \<and> \<bar>r - t\<bar> < 1 / sigma ^ 2 \<longrightarrow>
      regression_loss (sigma ^ 2) sv r t = Some (0.5 * exp (- sv) * \<bar>r - t\<bar> ^ 2 + 0.5 * sv))
   \<and> (sigma \<noteq> 0 \<longrightarrow> regression_loss (sigma ^ 2) sv r r = Some (0.5 * sv))
   \<and> (sigma \<noteq> 0 \<and> conform y_true y_pred
        \<and> filter (\<lambda>(t, p). last t = 1) (anchors y_true y_pred) = [(target, p)]
        \<and> butlast target = p \<longrightarrow>
      inner_smooth_l1 (sigma ^ 2) sv y_true y_pred = Inr (Some (real (length p) * (0.5 * sv))))"
proof (intro conjI impI; (elim conjE)?)
  assume s: "sigma \<noteq> 0" and d: "\<bar>r - t\<bar> < 1 / sigma ^ 2"
  then show "regression_loss (sigma ^ 2) sv r t = Some (0.5 * exp (- sv) * \<bar>r - t\<bar> ^ 2 + 0.5 * sv)"
    by (simp add: regression_loss_def Let_def quadratic_formula del: power2_abs)
next
  assume s: "sigma \<noteq> 0"
  then show "regression_loss (sigma ^ 2) sv r r = Some (0.5 * sv)"
    by (simp add: regression_loss_def quadratic_branch_def)
next
  assume s: "sigma \<noteq> 0" and c: "conform y_true y_pred"
    and f: "filter (\<lambda>(t, p). last t = 1) (anchors y_true y_pred) = [(target, p)]"
    and e: "butlast target = p"
  have r: "regression_loss (sigma ^ 2) sv x x = Some (0.5 * sv)" for x
    using s by (simp add: regression_loss_def quadratic_branch_def)
  have "map2 (regression_loss (sigma ^ 2) sv) p p = map (\<lambda>x. Some (0.5 * sv)) p"
    by (induction p) (simp_all add: r)
  then have "sum_opt (map2 (regression_loss (sigma ^ 2) sv) p p) = Some (real (length p) * (0.5 * sv))"
    by (simp add: sum_opt_Some sum_list_triv)
  then show "inner_smooth_l1 (sigma ^ 2) sv y_true y_pred = Inr (Some (real (length p) * (0.5 * sv)))"
    using s by (simp add: inner_smooth_l1_anchors [OF c] f e)
qed

theorem smooth_l1_quadratic_witness:
  "(3::real) \<noteq> 0 \<and> \<bar>(1 / 10 :: real) - 0\<bar> < 1 / 3 ^ 2
   \<and> regression_loss (3 ^ 2) 0 (1 / 10) 0 = Some (1 / 200)
   \<and> regression_loss (3 ^ 2) 1 5 5 = Some (1 / 2)
   \<and> conform [[[1, 2, 3, 4, 1], [0, 0, 0, 0, 0]]] [[[1, 2, 3, 4], [9, 9, 9, 9]]]
   \<and> filter (\<lambda>(t, p). last t = 1)
        (anchors [[[1, 2, 3, 4, 1], [0, 0, 0, 0, 0]]] [[[1, 2, 3, 4], [9, 9, 9, 9]]])
      = [([1, 2, 3, 4, 1], [1, 2, 3, 4])]
   \<and> butlast [1, 2, 3, 4, 1 :: real] = [1, 2, 3, 4]
   \<and> inner_smooth_l1 (3 ^ 2) 1 [[[1, 2, 3, 4, 1], [0, 0, 0, 0, 0]]] [[[1, 2, 3, 4], [9, 9, 9, 9]]]
       = Inr (Some 2)"
proof -
  have c: "conform [[[1, 2, 3, 4, 1], [0, 0, 0, 0, 0]]] [[[1, 2, 3, 4], [9, 9, 9, 9]]]"
    by (simp add: conform_def)
  have f: "filter (\<lambda>(t, p). last t = 1)
        (anchors [[[1, 2, 3, 4, 1], [0, 0, 0, 0, 0]]] [[[1, 2, 3, 4], [9, 9, 9, 9 :: real]]])
      = [([1, 2, 3, 4, 1 :: real], [1, 2, 3, 4])]"
    by (simp add: anchors_def)
  have d: "\<bar>(1 / 10 :: real) - 0\<bar> < 1 / 3 ^ 2" by simp
  from smooth_l1_quadratic [of 3 "1 / 10" 0 0]
       smooth_l1_quadratic [of 3 5 5 1 "[[[1, 2, 3, 4, 1], [0, 0, 0, 0, 0]]]"
         "[[[1, 2, 3, 4], [9, 9, 9, 9]]]" "[1, 2, 3, 4, 1]" "[1, 2, 3, 4]"] c f d
  show ?thesis by (simp add: power2_eq_square)
qed

text \<open>
  Claim C3. The claim is that the two branches agree at the boundary
  \<open>diff = 1 / sigma\<^sup>2\<close>. The code does not do so: with the defaults \<open>sigma = 3\<close> and
  \<open>sigma_var = 0\<close>, the branch of lines 130 to 143, which is the one taken at the boundary,
  is finite and lies more than 0.05 below the quadratic branch, and the loss of one positive
  anchor with one element at the boundary is \<open>1 / 162\<close> plus that gap, a negative number.
\<close>

theorem log_branch_jumps_at_boundary:
  "log_branch (3 ^ 2) (1 / (2 * exp 0)) 0 (1 / 3 ^ 2)
     = Some (quadratic_branch (1 / (2 * exp 0)) 0 (1 / 3 ^ 2)
             + 80 / 81 * ln (1 - erf (sqrt (1 / 2) / 9)))
   \<and> 80 / 81 * ln (1 - erf (sqrt (1 / 2) / 9)) < - (1 / 20)
   \<and> regression_loss (3 ^ 2) 0 (1 / 3 ^ 2) 0 = log_branch (3 ^ 2) (1 / (2 * exp 0)) 0 (1 / 3 ^ 2)
   \<and> inner_smooth_l1 (3 ^ 2) 0 [[[0, 0, 0, 0, 1]]] [[[1 / 3 ^ 2, 0, 0, 0]]]
       = Inr (Some (1 / 162 + 80 / 81 * ln (1 - erf (sqrt (1 / 2) / 9))))"
proof (intro conjI)
  have b: "log_branch 9 (1 / 2) 0 (1 / 9)
     = Some (quadratic_branch (1 / 2) 0 (1 / 9) + (1 - 1 / 9 ^ 2) * ln (1 - erf (sqrt (1 / 2) / 9)))"
    by (simp add: log_branch_at_boundary log_term_at_default(1))
  then show "log_branch (3 ^ 2) (1 / (2 * exp 0)) 0 (1 / 3 ^ 2)
     = Some (quadratic_branch (1 / (2 * exp 0)) 0 (1 / 3 ^ 2)
             + 80 / 81 * ln (1 - erf (sqrt (1 / 2) / 9)))"
    by simp
  show "80 / 81 * ln (1 - erf (sqrt (1 / 2) / 9)) < - (1 / 20)"
    using log_term_at_default(2) by simp
  show "regression_loss (3 ^ 2) 0 (1 / 3 ^ 2) 0 = log_branch (3 ^ 2) (1 / (2 * exp 0)) 0 (1 / 3 ^ 2)"
    by (simp add: regression_loss_def)
  have r1: "regression_loss 9 0 (1 / 9) 0
      = Some (1 / 162 + 80 / 81 * ln (1 - erf (sqrt (1 / 2) / 9)))"
    using b by (simp add: regression_loss_def quadratic_branch_def power2_eq_square)
  have r0: "regression_loss 9 0 0 0 = Some 0"
    by (simp add: regression_loss_def quadratic_branch_def)
  have c: "conform [[[0, 0, 0, 0, 1]]] [[[1 / 9, 0, 0, 0]]]"
    by (simp add: conform_def)
  show "inner_smooth_l1 (3 ^ 2) 0 [[[0, 0, 0, 0, 1]]] [[[1 / 3 ^ 2, 0, 0, 0]]]
       = Inr (Some (1 / 162 + 80 / 81 * ln (1 - erf (sqrt (1 / 2) / 9))))"
    using c by (simp add: inner_smooth_l1_anchors anchors_def r1 r0)
qed

text \<open>
  Claim C4. On float32 the base \<open>1 - (1 - classification)\<close> of the negative branch is not
  the prediction: for the prediction \<open>1 / 2 ^ 33\<close> it is 0, and with \<open>sigma_var = 2\<close> the
  focal weight before \<open>gamma\<close> is 0, where
  \<open>pred ** exp (- sigma_var) * exp (- 0.5 * sigma_var)\<close> is more than \<open>1 / 400\<close>.
\<close>

theorem double_negation_float32_counterexample:
  "negative_base32 (1 / 2 ^ 33) = Some 0
   \<and> focal_weight0_32 (1 / 2) 2 0 (1 / 2 ^ 33) = Some 0
   \<and> 1 / 400 < (1 / 2 ^ 33 :: real) powr exp (- 2) * exp (- 0.5 * 2)"
proof -
  have n: "negative_base32 (1 / 2 ^ 33) = Some 0"
    by (rule negative_base32_small) simp_all
  then have "focal_weight0_32 (1 / 2) 2 0 (1 / 2 ^ 33) = Some 0"
    by (simp add: focal_weight0_32_def tf_pow_def)
  then show ?thesis
    using n spec_weight_lower by simp
qed

text \<open>
  Claim C4, amended. On float32, the base \<open>1 - (1 - classification)\<close> is the prediction
  for every prediction that is a multiple of \<open>1 / 2 ^ 24\<close> in [0, 1], hence for every
  float32 prediction from \<open>1 / 2\<close> to 1: both subtractions are exact there, and the focal
  weight before \<open>gamma\<close> is \<open>(1 - pred) ** exp (- sigma_var) * exp (- 0.5 * sigma_var)\<close>
  where the label exceeds the cutoff and
  \<open>pred ** exp (- sigma_var) * exp (- 0.5 * sigma_var)\<close> elsewhere. For a prediction from 0
  to \<open>1 / 2\<close> the base is within \<open>1 / 2 ^ 25\<close> of the prediction; for a prediction from 0 to
  below \<open>1 / 2 ^ 25\<close> it is 0, and so is the weight of the negative branch.
\<close>

theorem focal_weight0_float32:
  "(0 \<le> k \<and> k \<le> 2 ^ 24 \<and> p = of_int k / 2 ^ 24 \<longrightarrow>
      negative_base32 p = Some p
      \<and> focal_weight0_32 cutoff sv label p =
          Some (if cutoff < label
                then (1 - p) powr exp (- sv) * exp (- 0.5 * sv)
                else p powr exp (- sv) * exp (- 0.5 * sv)))
   \<and> (1 / 2 \<le> x \<and> x \<le> 1 \<and> round32 x = Some x \<longrightarrow> negative_base32 x = Some x)
   \<and> (0 \<le> r \<and> r \<le> 1 / 2 \<longrightarrow>
      (\<exists>b. negative_base32 r = Some b \<and> \<bar>b - r\<bar> \<le> 1 / 2 ^ 25))
   \<and> (0 \<le> q \<and> q < 1 / 2 ^ 25 \<and> label \<le> cutoff \<longrightarrow>
      negative_base32 q = Some 0 \<and> focal_weight0_32 cutoff sv label q = Some 0)"
proof (intro conjI impI; elim conjE)
  assume k: "0 \<le> k" "k \<le> 2 ^ 24" and p: "p = of_int k / 2 ^ 24"
  have p01: "0 \<le> p" "p \<le> 1"
    using k unfolding p by (simp_all flip: of_int_le_iff)
  show n: "negative_base32 p = Some p"
    unfolding p using k by (rule negative_base32_grid)
  have s: "fl32_sub 1 p = Some (1 - p)"
    unfolding p using k by (rule fl32_sub_grid)
  show "focal_weight0_32 cutoff sv label p =
          Some (if cutoff < label
                then (1 - p) powr exp (- sv) * exp (- 0.5 * sv)
                else p powr exp (- sv) * exp (- 0.5 * sv))"
    using p01 by (simp add: focal_weight0_32_def n s tf_pow_prob)
next
  assume "1 / 2 \<le> x" "x \<le> 1" "round32 x = Some x"
  then show "negative_base32 x = Some x"
    by (rule negative_base32_float32_upper_half)
next
  assume "0 \<le> r" "r \<le> 1 / 2"
  then show "\<exists>b. negative_base32 r = Some b \<and> \<bar>b - r\<bar> \<le> 1 / 2 ^ 25"
    by (rule negative_base32_lower_half)
next
  assume q: "0 \<le> q" "q < 1 / 2 ^ 25" and l: "label \<le> cutoff"
  show n: "negative_base32 q = Some 0"
    using q by (rule negative_base32_small)
  show "focal_weight0_32 cutoff sv label q = Some 0"
    using l by (simp add: focal_weight0_32_def n tf_pow_def)
qed

theorem focal_weight0_float32_witness:
  "(0::int) \<le> 3 * 2 ^ 22 \<and> (3 * 2 ^ 22 :: int) \<le> 2 ^ 24 \<and> (3 / 4 :: real) = of_int (3 * 2 ^ 22) / 2 ^ 24
   \<and> negative_base32 (3 / 4) = Some (3 / 4)
   \<and> focal_weight0_32 (1 / 2) 0 0 (3 / 4) = Some (3 / 4)
   \<and> focal_weight0_32 (1 / 2) 0 1 (3 / 4) = Some (1 / 4)
   \<and> (1 / 2 :: real) \<le> 3 / 4 \<and> (3 / 4 :: real) \<le> 1 \<and> round32 (3 / 4) = Some (3 / 4)
   \<and> (0::real) \<le> 1 / 3 \<and> (1 / 3 :: real) \<le> 1 / 2
   \<and> (\<exists>b. negative_base32 (1 / 3) = Some b \<and> \<bar>b - 1 / 3\<bar> \<le> 1 / 2 ^ 25)
   \<and> (0::real) \<le> 1 / 2 ^ 30 \<and> (1 / 2 ^ 30 :: real) < 1 / 2 ^ 25 \<and> (0::real) \<le> 1 / 2
   \<and> negative_base32 (1 / 2 ^ 30) = Some 0
   \<and> focal_weight0_32 (1 / 2) 0 0 (1 / 2 ^ 30) = Some 0"
proof -
  have g: "round32 (of_int (3 * 2 ^ 22) / 2 ^ 24) = Some (of_int (3 * 2 ^ 22) / 2 ^ 24)"
    by (rule round32_grid) simp_all
  have f: "round32 (3 / 4) = Some (3 / 4)"
    using g by simp
  show ?thesis
    using focal_weight0_float32 [of "3 * 2 ^ 22" "3 / 4" "1 / 2" 0 0 "3 / 4" "1 / 3" "1 / 2 ^ 30"]
          focal_weight0_float32 [of "3 * 2 ^ 22" "3 / 4" "1 / 2" 0 1 "3 / 4" "1 / 3" "1 / 2 ^ 30"]
          f
    by simp
qed

text \<open>
  Claim C5. The focal loss is not non-negative on all valid targets and probabilities: the
  term \<open>sigma_var / 2\<close> is negative for a negative \<open>sigma_var\<close>.
\<close>

theorem focal_nonneg_counterexample:
  "conform [[[1, 1]]] [[[1]]]
   \<and> inner_focal (1 / 2) 0 (1 / 2) (- 2) [[[1, 1]]] [[[1]]] = Inr (Some (- 1 / 2))"
proof -
  have e1: "binary_crossentropy 1 1 = 0"
    by (simp add: binary_crossentropy_def clip_by_value_def epsilon_def)
  have c: "conform [[[1, 1]]] [[[1]]]"
    by (simp add: conform_def)
  have n: "focal_normalizer (slice_last [[[1, 1]]]) = 1"
    by (simp add: focal_normalizer_count slice_last_def)
  show ?thesis
    by (simp add: c inner_focal_elements n focal_elements_def anchors_def cls_loss_def
        gamma_zero_weight alpha_factor_def cross_entropy_def e1)
qed

text \<open>
  Claim C5, amended. For \<open>sigma_var \<ge> 0\<close>, \<open>alpha\<close> in [0, 1], \<open>gamma \<ge> 0\<close>, and labels and
  predictions in [0, 1] on the anchors that are not ignored, the focal loss is a finite
  non-negative number.
\<close>

theorem focal_nonneg:
  "conform y_true y_pred \<and> 0 \<le> alpha \<and> alpha \<le> 1 \<and> 0 \<le> gamma \<and> 0 \<le> sv
   \<and> list_all (\<lambda>(l, c). 0 \<le> l \<and> l \<le> 1 \<and> 0 \<le> c \<and> c \<le> 1) (focal_elements y_true y_pred)
   \<longrightarrow> (\<exists>v. inner_focal alpha gamma cutoff sv y_true y_pred = Inr (Some v) \<and> 0 \<le> v)"
proof (intro impI, elim conjE)
  assume c: "conform y_true y_pred"
    and p: "0 \<le> alpha" "alpha \<le> 1" "0 \<le> gamma" "0 \<le> sv"
    and r: "list_all (\<lambda>(l, c). 0 \<le> l \<and> l \<le> 1 \<and> 0 \<le> c \<and> c \<le> 1) (focal_elements y_true y_pred)"
  have "\<forall>x \<in> set (map (\<lambda>(l, c). cls_loss alpha gamma cutoff sv l c) (focal_elements y_true y_pred)).
          \<exists>v. x = Some v \<and> 0 \<le> v"
    using r p by (auto simp: list_all_iff intro: cls_loss_nonneg)
  then obtain s where s: "sum_opt (map (\<lambda>(l, c). cls_loss alpha gamma cutoff sv l c)
      (focal_elements y_true y_pred)) = Some s" "0 \<le> s"
    using sum_opt_nonneg by blast
  have "0 \<le> s / focal_normalizer (slice_last y_true)"
    using s(2) focal_normalizer_ge_1 [of "slice_last y_true"] by simp
  then show "\<exists>v. inner_focal alpha gamma cutoff sv y_true y_pred = Inr (Some v) \<and> 0 \<le> v"
    by (simp add: inner_focal_elements [OF c] s(1))
qed

theorem focal_nonneg_witness:
  "conform [[[1, 1], [0, 0], [1, - 1]]] [[[1 / 2], [1 / 4], [3]]]
   \<and> (0::real) \<le> 1 / 10 \<and> (1 / 10 :: real) \<le> 1 \<and> (0::real) \<le> 2 \<and> (0::real) \<le> 0
   \<and> list_all (\<lambda>(l, c). 0 \<le> l \<and> l \<le> 1 \<and> 0 \<le> c \<and> c \<le> 1)
        (focal_elements [[[1, 1], [0, 0], [1, - 1]]] [[[1 / 2], [1 / 4], [3]]])
   \<and> (\<exists>v. inner_focal (1 / 10) 2 (1 / 2) 0 [[[1, 1], [0, 0], [1, - 1]]] [[[1 / 2], [1 / 4], [3]]]
             = Inr (Some v) \<and> 0 \<le> v)"
proof -
  have h: "conform [[[1, 1], [0, 0], [1, - 1]]] [[[1 / 2], [1 / 4], [3]]]
   \<and> (0::real) \<le> 1 / 10 \<and> (1 / 10 :: real) \<le> 1 \<and> (0::real) \<le> 2 \<and> (0::real) \<le> 0
   \<and> list_all (\<lambda>(l, c). 0 \<le> l \<and> l \<le> 1 \<and> 0 \<le> c \<and> c \<le> 1)
        (focal_elements [[[1, 1], [0, 0], [1, - 1]]] [[[1 / 2], [1 / 4], [3]]])"
    by (simp add: conform_def focal_elements_def anchors_def)
  from focal_nonneg
         [of "[[[1, 1], [0, 0], [1, - 1]]]" "[[[1 / 2], [1 / 4], [3]]]" "1 / 10" 2 0 "1 / 2"] h
  show ?thesis by blast
qed

text \<open>
  Claim C6. The normalizer of the focal loss is the number of anchors of state 1 in the
  whole anchor-state channel of the batch (ignored anchors are not of state 1, so filtering
  plays no part), replaced by 1 when that number is below 1; the loss is the sum of the
  element losses of the anchors that are not ignored, divided by this normalizer.
\<close>

theorem focal_normalizer_counts_positive:
  "conform y_true y_pred \<longrightarrow>
     (let n = length (filter (\<lambda>s. s = 1) (concat (slice_last y_true)));
          normalizer = (if n < 1 then 1 else real n)
      in focal_normalizer (slice_last y_true) = normalizer
         \<and> inner_focal alpha gamma cutoff sv y_true y_pred =
             Inr (map_option (\<lambda>s. s / normalizer)
               (sum_opt (concat
                 (map (\<lambda>(t, p). map2 (cls_loss alpha gamma cutoff sv) (butlast t) p)
                   (filter (\<lambda>(t, p). last t \<noteq> - 1) (anchors y_true y_pred)))))))"
proof
  assume c: "conform y_true y_pred"
  let ?n = "length (filter (\<lambda>s. s = 1) (concat (slice_last y_true)))"
  have n: "focal_normalizer (slice_last y_true) = (if ?n < 1 then 1 else real ?n)"
    by (cases "filter (\<lambda>s. s = 1) (concat (slice_last y_true))")
       (simp_all add: focal_normalizer_count)
  show "let n = ?n; normalizer = (if n < 1 then 1 else real n)
      in focal_normalizer (slice_last y_true) = normalizer
         \<and> inner_focal alpha gamma cutoff sv y_true y_pred =
             Inr (map_option (\<lambda>s. s / normalizer)
               (sum_opt (concat
                 (map (\<lambda>(t, p). map2 (cls_loss alpha gamma cutoff sv) (butlast t) p)
                   (filter (\<lambda>(t, p). last t \<noteq> - 1) (anchors y_true y_pred))))))"
    unfolding Let_def inner_focal_anchors [OF c] n by simp
qed

theorem focal_normalizer_counts_positive_witness:
  "conform [[[1, 1], [0, 0], [1, 1], [1, - 1]]] [[[1], [0], [1], [1 / 2]]]
   \<and> focal_normalizer (slice_last [[[1, 1], [0, 0], [1, 1], [1, - 1]]]) = 2
   \<and> inner_focal (1 / 2) 0 (1 / 2) 2 [[[1, 1], [0, 0], [1, 1], [1, - 1]]] [[[1], [0], [1], [1 / 2]]]
       = Inr (Some (3 / 4))"
proof -
  have c: "conform [[[1, 1], [0, 0], [1, 1], [1, - 1]]] [[[1], [0], [1], [1 / 2]]]"
    by (simp add: conform_def)
  have w: "focal_weight (1 / 2) 0 (1 / 2) sv l p = Some (1 / 2)" for sv l p
    by (simp add: focal_weight_def tf_pow_opt_def alpha_factor_def)
  have e1: "binary_crossentropy 1 1 = 0" and e0: "binary_crossentropy 0 0 = 0"
    by (simp_all add: binary_crossentropy_def clip_by_value_def epsilon_def)
  from focal_normalizer_counts_positive
         [of "[[[1, 1], [0, 0], [1, 1], [1, - 1]]]" "[[[1], [0], [1], [1 / 2]]]" "1 / 2" 0 "1 / 2" 2] c
  show ?thesis
    by (simp add: Let_def slice_last_def anchors_def cls_loss_def w cross_entropy_def e1 e0)
qed

text \<open>
  Claim C7. The smooth L1 loss sums element losses over the anchors of state 1 only, each
  prediction row paired with the target row of the same anchor, and divides by their
  number (at least 1). Hence two batches with the same anchors of state 1 have the same
  loss, whatever their other anchors hold.
\<close>

theorem smooth_l1_selects_positive_anchors:
  "(conform y_true y_pred \<and> sigma_squared \<noteq> 0 \<longrightarrow>
      inner_smooth_l1 sigma_squared sv y_true y_pred =
        Inr (map_option
          (\<lambda>s. s / real (max 1 (length (filter (\<lambda>(t, p). last t = 1) (anchors y_true y_pred)))))
          (sum_opt (concat
            (map (\<lambda>(t, p). map2 (regression_loss sigma_squared sv) p (butlast t))
              (filter (\<lambda>(t, p). last t = 1) (anchors y_true y_pred)))))))
   \<and> (conform y_true y_pred \<and> conform y_true' y_pred' \<and> sigma_squared \<noteq> 0
        \<and> filter (\<lambda>(t, p). last t = 1) (anchors y_true y_pred)
            = filter (\<lambda>(t, p). last t = 1) (anchors y_true' y_pred') \<longrightarrow>
      inner_smooth_l1 sigma_squared sv y_true y_pred
        = inner_smooth_l1 sigma_squared sv y_true' y_pred')"
  by (simp add: inner_smooth_l1_anchors)

theorem smooth_l1_selects_positive_anchors_witness:
  "conform [[[1, 2, 1], [5, 5, 0], [7, 7, - 1]]] [[[1, 2], [0, 0], [0, 0]]]
   \<and> conform [[[8, 8, - 1], [1, 2, 1]]] [[[3, 3], [1, 2]]]
   \<and> (3::real) ^ 2 \<noteq> 0
   \<and> filter (\<lambda>(t, p). last t = 1)
        (anchors [[[1, 2, 1], [5, 5, 0], [7, 7, - 1]]] [[[1, 2], [0, 0], [0, 0]]])
      = filter (\<lambda>(t, p). last t = 1) (anchors [[[8, 8, - 1], [1, 2, 1]]] [[[3, 3], [1, 2]]])
   \<and> inner_smooth_l1 (3 ^ 2) 1 [[[1, 2, 1], [5, 5, 0], [7, 7, - 1]]] [[[1, 2], [0, 0], [0, 0]]]
       = Inr (Some 1)
   \<and> inner_smooth_l1 (3 ^ 2) 1 [[[1, 2, 1], [5, 5, 0], [7, 7, - 1]]] [[[1, 2], [0, 0], [0, 0]]]
       = inner_smooth_l1 (3 ^ 2) 1 [[[8, 8, - 1], [1, 2, 1]]] [[[3, 3], [1, 2]]]"
proof -
  have c: "conform [[[1, 2, 1], [5, 5, 0], [7, 7, - 1]]] [[[1, 2], [0, 0], [0, 0]]]"
    and c': "conform [[[8, 8, - 1], [1, 2, 1]]] [[[3, 3], [1, 2]]]"
    by (simp_all add: conform_def)
  have s: "(3::real) ^ 2 \<noteq> 0" by simp
  have f: "filter (\<lambda>(t, p). last t = 1)
        (anchors [[[1, 2, 1], [5, 5, 0], [7, 7, - 1]]] [[[1, 2], [0, 0], [0, 0]]])
      = filter (\<lambda>(t, p). last t = (1::real)) (anchors [[[8, 8, - 1], [1, 2, 1]]] [[[3, 3], [1, 2::real]]])"
    by (simp add: anchors_def)
  have r: "regression_loss 9 1 x x = Some (1 / 2)" for x
    by (simp add: regression_loss_def quadratic_branch_def)
  from smooth_l1_selects_positive_anchors
         [of "[[[1, 2, 1], [5, 5, 0], [7, 7, - 1]]]" "[[[1, 2], [0, 0], [0, 0]]]" "3 ^ 2" 1
             "[[[8, 8, - 1], [1, 2, 1]]]" "[[[3, 3], [1, 2]]]"] c c' s f
  show ?thesis
    by (auto simp: anchors_def r)
qed

text \<open>
  Claim C8. With \<open>alpha = 0.5\<close> and \<open>gamma = 0\<close> the focal weight of every element is 0.5,
  whatever the label, the prediction and \<open>sigma_var\<close> are (a power with exponent 0 is 1,
  and both values of the alpha factor are 0.5); the loss is then 0.5 times the sum of the
  scaled cross-entropy terms, divided by the normalizer.
\<close>

theorem gamma_zero_alpha_half:
  "focal_weight (1 / 2) 0 cutoff sv label classification = Some (1 / 2)
   \<and> (conform y_true y_pred \<longrightarrow>
        inner_focal (1 / 2) 0 cutoff sv y_true y_pred =
          Inr (Some (1 / 2 * (\<Sum>(l, c) \<leftarrow> focal_elements y_true y_pred. cross_entropy sv l c)
                     / focal_normalizer (slice_last y_true))))"
proof (intro conjI impI)
  show w: "focal_weight (1 / 2) 0 cutoff sv label classification = Some (1 / 2)"
    for label classification
    by (simp add: gamma_zero_weight alpha_factor_def)
  assume c: "conform y_true y_pred"
  have "cls_loss (1 / 2) 0 cutoff sv l c = Some (1 / 2 * cross_entropy sv l c)" for l c
    by (simp add: cls_loss_def w)
  then have m: "map (\<lambda>(l, c). cls_loss (1 / 2) 0 cutoff sv l c) (focal_elements y_true y_pred)
      = map (\<lambda>e. Some (1 / 2 * (case e of (l, c) \<Rightarrow> cross_entropy sv l c)))
          (focal_elements y_true y_pred)"
    by (simp add: case_prod_unfold)
  have "sum_opt (map (\<lambda>(l, c). cls_loss (1 / 2) 0 cutoff sv l c) (focal_elements y_true y_pred))
      = Some (\<Sum>e \<leftarrow> focal_elements y_true y_pred.
                 1 / 2 * (case e of (l, c) \<Rightarrow> cross_entropy sv l c))"
    unfolding m by (rule sum_opt_Some)
  also have "(\<Sum>e \<leftarrow> focal_elements y_true y_pred.
                 1 / 2 * (case e of (l, c) \<Rightarrow> cross_entropy sv l c))
      = 1 / 2 * (\<Sum>(l, c) \<leftarrow> focal_elements y_true y_pred. cross_entropy sv l c)"
    by (rule sum_list_const_mult)
  finally show "inner_focal (1 / 2) 0 cutoff sv y_true y_pred =
          Inr (Some (1 / 2 * (\<Sum>(l, c) \<leftarrow> focal_elements y_true y_pred. cross_entropy sv l c)
                     / focal_normalizer (slice_last y_true)))"
    unfolding inner_focal_elements [OF c] by simp
qed

theorem gamma_zero_alpha_half_witness:
  "conform [[[1, 1], [0, 0], [1, 1], [1, - 1]]] [[[1], [0], [1], [1 / 2]]]
   \<and> inner_focal (1 / 2) 0 (1 / 2) 2 [[[1, 1], [0, 0], [1, 1], [1, - 1]]] [[[1], [0], [1], [1 / 2]]]
       = Inr (Some (1 / 2 * (1 + 1 + 1) / 2))"
proof -
  have c: "conform [[[1, 1], [0, 0], [1, 1], [1, - 1]]] [[[1], [0], [1], [1 / 2]]]"
    by (simp add: conform_def)
  have e1: "binary_crossentropy 1 1 = 0" and e0: "binary_crossentropy 0 0 = 0"
    by (simp_all add: binary_crossentropy_def clip_by_value_def epsilon_def)
  have n: "focal_normalizer (slice_last [[[1, 1], [0, 0], [1, 1], [1, - 1]]]) = 2"
    by (simp add: focal_normalizer_count slice_last_def)
  from gamma_zero_alpha_half
         [of "1 / 2" 2 0 0 "[[[1, 1], [0, 0], [1, 1], [1, - 1]]]" "[[[1], [0], [1], [1 / 2]]]"] c
  show ?thesis
    by (simp add: n focal_elements_def anchors_def cross_entropy_def e1 e0)
qed

text \<open>
  Claim C9. Each constructor returns the pair of the loss function and \<open>sigma_var\<close>. Given
  a variable, it returns that variable. Given none, it creates a trainable variable of value
  0 that the store did not hold before, returns it as the second component, and the returned
  loss function reads this very variable: called in a store where the variable holds \<open>x\<close>
  (the optimizer has updated it), it evaluates the body of the loss with \<open>x\<close>.
\<close>

theorem constructors_return_loss_and_sigma_var:
  "focal alpha gamma cutoff (Some v) st = ((closure_focal alpha gamma cutoff v, v), st)
   \<and> smooth_l1 sigma (Some v) st = ((closure_smooth_l1 (sigma ^ 2) v, v), st)
   \<and> focal alpha gamma cutoff None st =
       ((closure_focal alpha gamma cutoff (length st), length st),
        st @ [\<lparr>var_name = ''sigma_sq_focal'', var_value = 0, var_trainable = True\<rparr>])
   \<and> smooth_l1 sigma None st =
       ((closure_smooth_l1 (sigma ^ 2) (length st), length st),
        st @ [\<lparr>var_name = ''sigma_sq_smooth_l1'', var_value = 0, var_trainable = True\<rparr>])
   \<and> read_value st (snd (fst (focal alpha gamma cutoff None st))) = None
   \<and> read_value st (snd (fst (smooth_l1 sigma None st))) = None
   \<and> read_value (snd (focal alpha gamma cutoff None st))
        (snd (fst (focal alpha gamma cutoff None st))) = Some 0
   \<and> read_value (snd (smooth_l1 sigma None st)) (snd (fst (smooth_l1 sigma None st))) = Some 0
   \<and> fst (fst (focal alpha gamma cutoff None st)) y_true y_pred
        (st @ [\<lparr>var_name = ''sigma_sq_focal'', var_value = x, var_trainable = True\<rparr>] @ st')
       = (inner_focal alpha gamma cutoff x y_true y_pred,
          st @ [\<lparr>var_name = ''sigma_sq_focal'', var_value = x, var_trainable = True\<rparr>] @ st')
   \<and> fst (fst (smooth_l1 sigma None st)) y_true y_pred
        (st @ [\<lparr>var_name = ''sigma_sq_smooth_l1'', var_value = x, var_trainable = True\<rparr>] @ st')
       = (inner_smooth_l1 (sigma ^ 2) x y_true y_pred,
          st @ [\<lparr>var_name = ''sigma_sq_smooth_l1'', var_value = x, var_trainable = True\<rparr>] @ st')"
  by (simp add: focal_def smooth_l1_def tf_Variable_def read_value_def closure_focal_def
      closure_smooth_l1_def Let_def nth_append)

text \<open>
  Claim C10. A call of either loss function returns the store it was given: the value of
  \<open>sigma_var\<close> after the call is its value before.
\<close>

theorem loss_call_leaves_sigma_var:
  "snd (closure_focal alpha gamma cutoff sigma_var y_true y_pred st) = st
   \<and> snd (closure_smooth_l1 sigma_squared sigma_var y_true y_pred st) = st
   \<and> read_value (snd (closure_focal alpha gamma cutoff sigma_var y_true y_pred st)) sigma_var
       = read_value st sigma_var
   \<and> read_value (snd (closure_smooth_l1 sigma_squared sigma_var y_true y_pred st)) sigma_var
       = read_value st sigma_var"
  by (simp add: closure_focal_def closure_smooth_l1_def split: option.split)

end
